theory Spec2Isabelle
  imports Complex_Main
begin

section \<open>Python values, errors and dictionaries\<close>

text \<open>
  The values that travel through the acquisition optimizer are Python floats, Python
  ints (the index of a discrete option) and Python strings (a categorical option).
  Floats are modelled as reals: the code only copies, compares and negates them, and
  all three are exact on finite floats (NaN is not modelled).
\<close>

datatype pyval = PyFloat real | PyInt int | PyStr string

datatype error =
    ValueError
  | IndexError
  | TypeError
  | KeyError
  | RuntimeError
  | UnboundLocalError
  | AttributeError
  | Fatal string

text \<open>Python's \<^verbatim>\<open>==\<close> on these values: an int and a float compare by their number.\<close>

fun py_eq :: "pyval \<Rightarrow> pyval \<Rightarrow> bool" where
  "py_eq (PyFloat a) (PyFloat b) = (a = b)"
| "py_eq (PyInt a) (PyInt b) = (a = b)"
| "py_eq (PyFloat a) (PyInt b) = (a = of_int b)"
| "py_eq (PyInt a) (PyFloat b) = (of_int a = b)"
| "py_eq (PyStr a) (PyStr b) = (a = b)"
| "py_eq _ _ = False"

text \<open>
  Three conversions are not computed here and are taken as parameters: \<^verbatim>\<open>float(s)\<close>
  of a string (None when Python raises ValueError), \<^verbatim>\<open>str(x)\<close> of a number, and
  the rounding of a float to single precision made by \<^verbatim>\<open>torch.FloatTensor\<close>.
\<close>

record builtins =
  float_of_str :: "string \<Rightarrow> real option"
  str_of_num :: "pyval \<Rightarrow> string"
  float32 :: "real \<Rightarrow> real"

fun py_float :: "builtins \<Rightarrow> pyval \<Rightarrow> error + pyval" where
  "py_float py (PyFloat r) = Inr (PyFloat r)"
| "py_float py (PyInt i) = Inr (PyFloat (of_int i))"
| "py_float py (PyStr s) =
     (case float_of_str py s of None \<Rightarrow> Inl ValueError | Some r \<Rightarrow> Inr (PyFloat r))"

fun py_str :: "builtins \<Rightarrow> pyval \<Rightarrow> string" where
  "py_str py (PyStr s) = s"
| "py_str py v = str_of_num py v"

text \<open>
  A dict keeps its keys in insertion order and the code iterates over them, so a dict is
  an association list: \<open>dict_set\<close> is \<^verbatim>\<open>d[k] = v\<close> (an existing key keeps its
  place), \<open>dict_get\<close> is \<^verbatim>\<open>d[k]\<close>, \<open>dict_values\<close> is
  \<^verbatim>\<open>list(d.values())\<close>, and \<open>dict_zip\<close> is \<^verbatim>\<open>dict(zip(ks, vs))\<close>.
\<close>

type_synonym pydict = "(string \<times> pyval) list"

fun dict_set :: "(string \<times> 'v) list \<Rightarrow> string \<Rightarrow> 'v \<Rightarrow> (string \<times> 'v) list" where
  "dict_set [] k v = [(k, v)]"
| "dict_set ((k', v') # d) k v =
     (if k' = k then (k, v) # d else (k', v') # dict_set d k v)"

definition dict_get :: "pydict \<Rightarrow> string \<Rightarrow> error + pyval" where
  "dict_get d k = (case map_of d k of None \<Rightarrow> Inl KeyError | Some v \<Rightarrow> Inr v)"

definition dict_values :: "pydict \<Rightarrow> pyval list" where
  "dict_values d = map snd d"

definition dict_zip :: "string list \<Rightarrow> pyval list \<Rightarrow> pydict" where
  "dict_zip ks vs = foldl (\<lambda>d (k, v). dict_set d k v) [] (zip ks vs)"

section \<open>The parameter space\<close>

text \<open>
  An Olympus parameter is read through \<^verbatim>\<open>param.type\<close>, \<^verbatim>\<open>param.name\<close>,
  \<^verbatim>\<open>param.low\<close>, \<^verbatim>\<open>param.high\<close> and \<^verbatim>\<open>param.options\<close>. The three
  constructors are the type tags \<^verbatim>\<open>'continuous'\<close>, \<^verbatim>\<open>'discrete'\<close> and
  \<^verbatim>\<open>'categorical'\<close>; \<open>ParameterOther\<close> is a parameter with any other tag, which
  the code reaches in its \<^verbatim>\<open>else\<close> branches.
\<close>

datatype parameter =
    ParameterContinuous string real real
  | ParameterDiscrete string real real "real list"
  | ParameterCategorical string "string list"
  | ParameterOther string

fun name :: "parameter \<Rightarrow> string" where
  "name (ParameterContinuous n lo hi) = n"
| "name (ParameterDiscrete n lo hi opts) = n"
| "name (ParameterCategorical n opts) = n"
| "name (ParameterOther n) = n"

text \<open>
  \<^verbatim>\<open>options[i]\<close> with Python's indexing (a negative index counts from the end, an
  index out of range raises IndexError, an index that is no int raises TypeError), and
  \<^verbatim>\<open>options.index(x)\<close> (the first position whose option equals \<open>x\<close>, ValueError
  when there is none).
\<close>

definition list_getitem :: "'a list \<Rightarrow> pyval \<Rightarrow> error + 'a" where
  "list_getitem xs i =
     (case i of
        PyInt k \<Rightarrow>
          (let n = int (length xs); j = (if k < 0 then n + k else k)
           in if 0 \<le> j \<and> j < n then Inr (xs ! nat j) else Inl IndexError)
      | _ \<Rightarrow> Inl TypeError)"

fun list_index :: "real list \<Rightarrow> pyval \<Rightarrow> error + int" where
  "list_index [] x = Inl ValueError"
| "list_index (y # ys) x =
     (if py_eq (PyFloat y) x then Inr 0
      else (case list_index ys x of Inl e \<Rightarrow> Inl e | Inr i \<Rightarrow> Inr (i + 1)))"

section \<open>Decoding: \<^verbatim>\<open>PymooProblemWrapper._pymoo_to_olympus\<close>\<close>

text \<open>
  A population handed over by pymoo is a sequence of dicts (mixed variables) or a
  sequence of plain arrays; the code looks at \<^verbatim>\<open>samples[0]\<close> alone to tell which.
\<close>

datatype population = PopDicts "pydict list" | PopArrays "pyval list list"

definition X_to_list_dicts :: "parameter list \<Rightarrow> pyval list list \<Rightarrow> pydict list" where
  "X_to_list_dicts param_space X = map (\<lambda>row. dict_zip (map name param_space) row) X"

text \<open>
  One pass of the inner loop: \<open>elem\<close> is a key of the sample, \<open>param\<close> the
  parameter zipped with it. A parameter of another type adds nothing.
\<close>

fun decode_elem :: "builtins \<Rightarrow> pydict \<Rightarrow> pydict \<Rightarrow> string \<times> parameter \<Rightarrow> error + pydict" where
  "decode_elem py sample olymp_sample (elem, ParameterDiscrete n lo hi opts) =
     (case dict_get sample elem of Inl e \<Rightarrow> Inl e
      | Inr i \<Rightarrow>
          (case list_getitem opts i of Inl e \<Rightarrow> Inl e
           | Inr x \<Rightarrow> Inr (dict_set olymp_sample n (PyFloat x))))"
| "decode_elem py sample olymp_sample (elem, ParameterContinuous n lo hi) =
     (case dict_get sample elem of Inl e \<Rightarrow> Inl e
      | Inr v \<Rightarrow>
          (case py_float py v of Inl e \<Rightarrow> Inl e
           | Inr x \<Rightarrow> Inr (dict_set olymp_sample n x)))"
| "decode_elem py sample olymp_sample (elem, ParameterCategorical n opts) =
     (case dict_get sample elem of Inl e \<Rightarrow> Inl e
      | Inr v \<Rightarrow> Inr (dict_set olymp_sample n v))"
| "decode_elem py sample olymp_sample (elem, ParameterOther n) = Inr olymp_sample"

fun decode_loop :: "builtins \<Rightarrow> pydict \<Rightarrow> pydict \<Rightarrow> (string \<times> parameter) list \<Rightarrow> error + pydict" where
  "decode_loop py sample olymp_sample [] = Inr olymp_sample"
| "decode_loop py sample olymp_sample (ep # eps) =
     (case decode_elem py sample olymp_sample ep of Inl e \<Rightarrow> Inl e
      | Inr olymp_sample' \<Rightarrow> decode_loop py sample olymp_sample' eps)"

definition decode_sample :: "builtins \<Rightarrow> parameter list \<Rightarrow> pydict \<Rightarrow> error + pydict" where
  "decode_sample py param_space sample =
     decode_loop py sample [] (zip (map fst sample) param_space)"

fun decode_samples :: "builtins \<Rightarrow> parameter list \<Rightarrow> pydict list \<Rightarrow> error + pydict list" where
  "decode_samples py param_space [] = Inr []"
| "decode_samples py param_space (sample # samples) =
     (case decode_sample py param_space sample of Inl e \<Rightarrow> Inl e
      | Inr olymp_sample \<Rightarrow>
          (case decode_samples py param_space samples of Inl e \<Rightarrow> Inl e
           | Inr olymp_samples \<Rightarrow> Inr (olymp_sample # olymp_samples)))"

text \<open>
  \<open>pymoo_to_olympus\<close> is the method called with \<^verbatim>\<open>return_param_vec=True\<close>, as
  every caller does. A \<^verbatim>\<open>ParameterVector\<close> built by \<^verbatim>\<open>from_dict\<close> is
  modelled as the ordered dict it is built from. \<open>to_list_dicts\<close> is the test
  \<^verbatim>\<open>if not isinstance(samples[0], dict)\<close> with the conversion it guards;
  \<^verbatim>\<open>samples[0]\<close> raises IndexError on an empty sequence.
\<close>

type_synonym ParameterVector = pydict

definition to_list_dicts :: "parameter list \<Rightarrow> population \<Rightarrow> error + pydict list" where
  "to_list_dicts param_space samples =
     (case samples of
        PopDicts [] \<Rightarrow> Inl IndexError
      | PopArrays [] \<Rightarrow> Inl IndexError
      | PopDicts ds \<Rightarrow> Inr ds
      | PopArrays X \<Rightarrow> Inr (X_to_list_dicts param_space X))"

definition pymoo_to_olympus :: "builtins \<Rightarrow> parameter list \<Rightarrow> population \<Rightarrow> error + ParameterVector list" where
  "pymoo_to_olympus py param_space samples =
     (case to_list_dicts param_space samples of
        Inl e \<Rightarrow> Inl e
      | Inr ds \<Rightarrow> decode_samples py param_space ds)"

section \<open>Batch selection: \<^verbatim>\<open>PymooGAOptimizer._batch_sample_selector\<close>\<close>

text \<open>
  \<^verbatim>\<open>self._params\<close> is the two-dimensional array of the points measured so far, one
  row per point. \<^verbatim>\<open>any((self._params[:] == sample_arr).all(1))\<close> compares the
  sample with every row, element by element, and asks whether some row agrees in all
  its columns. Rows and sample have the columns of one parameter space; comparing
  arrays of different shapes is not modelled.
\<close>

definition row_eq :: "pyval list \<Rightarrow> ParameterVector \<Rightarrow> bool" where
  "row_eq row sample_arr = list_all2 py_eq row (dict_values sample_arr)"

definition measured :: "pyval list list \<Rightarrow> ParameterVector \<Rightarrow> bool" where
  "measured params sample_arr = list_ex (\<lambda>row. row_eq row sample_arr) params"

text \<open>
  The loop over \<^verbatim>\<open>zip(olymp_samples_arr, olymp_samples_pvec)\<close>: an unmeasured
  sample is appended, and the length test (an equality, made after the append) ends
  the loop.
\<close>

fun select_loop :: "pyval list list \<Rightarrow> int \<Rightarrow> ParameterVector list \<Rightarrow>
    (ParameterVector \<times> ParameterVector) list \<Rightarrow> ParameterVector list" where
  "select_loop params batch_size batch_samples [] = batch_samples"
| "select_loop params batch_size batch_samples ((sample_arr, sample_pvec) # rest) =
     (let batch_samples' =
        (if \<not> measured params sample_arr then batch_samples @ [sample_pvec] else batch_samples)
      in if int (length batch_samples') = batch_size then batch_samples'
         else select_loop params batch_size batch_samples' rest)"

definition batch_sample_selector :: "builtins \<Rightarrow> parameter list \<Rightarrow> pyval list list \<Rightarrow> int \<Rightarrow>
    population \<Rightarrow> error + ParameterVector list" where
  "batch_sample_selector py param_space params batch_size final_pop =
     (case pymoo_to_olympus py param_space final_pop of Inl e \<Rightarrow> Inl e
      | Inr olymp_samples_arr \<Rightarrow>
          (case pymoo_to_olympus py param_space final_pop of Inl e \<Rightarrow> Inl e
           | Inr olymp_samples_pvec \<Rightarrow>
               Inr (select_loop params batch_size [] (zip olymp_samples_arr olymp_samples_pvec))))"

section \<open>The pymoo parameter space: \<^verbatim>\<open>PymooGAOptimizer._set_pymoo_param_space\<close>\<close>

datatype variable = Real real real | Integer int int | Choice "string list"

type_synonym pymoo_space = "(string \<times> variable) list"

fun set_param :: "pymoo_space \<times> real list \<times> real list \<Rightarrow> parameter \<Rightarrow>
    error + pymoo_space \<times> real list \<times> real list" where
  "set_param (space, xl, xu) (ParameterContinuous n lo hi) =
     Inr (dict_set space n (Real lo hi), xl @ [lo], xu @ [hi])"
| "set_param (space, xl, xu) (ParameterDiscrete n lo hi opts) =
     Inr (dict_set space n (Integer 0 (int (length opts) - 1)), xl @ [lo], xu @ [hi])"
| "set_param (space, xl, xu) (ParameterCategorical n opts) =
     Inr (dict_set space n (Choice opts), xl @ [0], xu @ [of_int (int (length opts) - 1)])"
| "set_param (space, xl, xu) (ParameterOther n) = Inl ValueError"

fun set_param_loop :: "pymoo_space \<times> real list \<times> real list \<Rightarrow> parameter list \<Rightarrow>
    error + pymoo_space \<times> real list \<times> real list" where
  "set_param_loop acc [] = Inr acc"
| "set_param_loop acc (param # rest) =
     (case set_param acc param of Inl e \<Rightarrow> Inl e | Inr acc' \<Rightarrow> set_param_loop acc' rest)"

definition set_pymoo_param_space :: "parameter list \<Rightarrow> error + pymoo_space \<times> real list \<times> real list" where
  "set_pymoo_param_space param_space = set_param_loop ([], [], []) param_space"

section \<open>Encoding: \<^verbatim>\<open>gen_initial_population\<close>\<close>

fun encode_elem :: "builtins \<Rightarrow> pydict \<Rightarrow> pyval \<times> parameter \<Rightarrow> error + pydict" where
  "encode_elem py pop_dict (elem, ParameterDiscrete n lo hi opts) =
     (case list_index opts elem of Inl e \<Rightarrow> Inl e
      | Inr i \<Rightarrow> Inr (dict_set pop_dict n (PyInt i)))"
| "encode_elem py pop_dict (elem, ParameterContinuous n lo hi) =
     (case py_float py elem of Inl e \<Rightarrow> Inl e
      | Inr x \<Rightarrow> Inr (dict_set pop_dict n x))"
| "encode_elem py pop_dict (elem, param) =
     Inr (dict_set pop_dict (name param) (PyStr (py_str py elem)))"

fun encode_loop :: "builtins \<Rightarrow> pydict \<Rightarrow> (pyval \<times> parameter) list \<Rightarrow> error + pydict" where
  "encode_loop py pop_dict [] = Inr pop_dict"
| "encode_loop py pop_dict (ep # eps) =
     (case encode_elem py pop_dict ep of Inl e \<Rightarrow> Inl e
      | Inr pop_dict' \<Rightarrow> encode_loop py pop_dict' eps)"

definition encode_sample :: "builtins \<Rightarrow> parameter list \<Rightarrow> pyval list \<Rightarrow> error + pydict" where
  "encode_sample py param_space sample = encode_loop py [] (zip sample param_space)"

text \<open>
  The dict of a sample is appended to the population inside the loop over its
  parameters, once per parameter; every entry is the same object, so in the returned
  list each of them shows the finished dict.
\<close>

fun gen_loop :: "builtins \<Rightarrow> parameter list \<Rightarrow> pyval list list \<Rightarrow> error + pydict list" where
  "gen_loop py param_space [] = Inr []"
| "gen_loop py param_space (sample # samples_raw) =
     (case encode_sample py param_space sample of Inl e \<Rightarrow> Inl e
      | Inr pop_dict \<Rightarrow>
          (case gen_loop py param_space samples_raw of Inl e \<Rightarrow> Inl e
           | Inr pop_list_dicts \<Rightarrow>
               Inr (replicate (length (zip sample param_space)) pop_dict @ pop_list_dicts)))"

definition gen_initial_population :: "builtins \<Rightarrow> (nat \<Rightarrow> parameter list \<Rightarrow> bool \<Rightarrow> pyval list list) \<Rightarrow>
    nat \<Rightarrow> parameter list \<Rightarrow> bool \<Rightarrow> error + population" where
  "gen_initial_population py propose_randomly pop param_space has_descriptors =
     (case gen_loop py param_space (propose_randomly pop param_space has_descriptors) of
        Inl e \<Rightarrow> Inl e
      | Inr pop_list_dicts \<Rightarrow> Inr (PopDicts pop_list_dicts))"

section \<open>The problem wrapper: \<^verbatim>\<open>PymooProblemWrapper\<close>\<close>

text \<open>
  The known-constraints object is read through \<^verbatim>\<open>is_empty\<close> and by iterating over
  its predicates; each predicate takes the list of a point's values. The
  \<^verbatim>\<open>Parameters\<close> object is read through \<^verbatim>\<open>param_space\<close> and through
  \<^verbatim>\<open>param_vectors_to_expanded(param_vectors, is_scaled, return_scaled)\<close>, whose
  result is taken as it comes. The acquisition function maps a tensor of shape
  (points, batch, features) to one score per point.
\<close>

record KnownConstraints =
  is_empty :: bool
  constraints :: "(pyval list \<Rightarrow> bool) list"

record Parameters =
  param_space :: "parameter list"
  param_vectors_to_expanded :: "ParameterVector list \<Rightarrow> bool \<Rightarrow> bool \<Rightarrow> real list list"

type_synonym AcquisitionFunction = "real list list list \<Rightarrow> real list"

record PymooProblemWrapper =
  vars :: pymoo_space
  n_vars :: nat
  n_obj :: nat
  n_constr :: nat
  xl :: "real list"
  xu :: "real list"
  prob_params_obj :: Parameters
  prob_acqf :: AcquisitionFunction
  prob_batch_size :: int
  prob_known_constraints :: KnownConstraints

definition PymooProblemWrapper_init :: "Parameters \<Rightarrow> pymoo_space \<Rightarrow> real list \<times> real list \<Rightarrow>
    AcquisitionFunction \<Rightarrow> int \<Rightarrow> KnownConstraints \<Rightarrow> PymooProblemWrapper" where
  "PymooProblemWrapper_init params_obj space bounds acqf batch_size known_constraints =
     (let n_constr = (if \<not> is_empty known_constraints then 1 else 0)
      in \<lparr> vars = space,
           n_vars = length (param_space params_obj),
           n_obj = 1,
           n_constr = n_constr,
           xl = fst bounds,
           xu = snd bounds,
           prob_params_obj = params_obj,
           prob_acqf = acqf,
           prob_batch_size = batch_size,
           prob_known_constraints = known_constraints \<rparr>)"

definition known_constraints_wrapper :: "KnownConstraints \<Rightarrow> pydict list \<Rightarrow> int list" where
  "known_constraints_wrapper known_constraints X =
     map (\<lambda>Xi.
            let X_arr = dict_values Xi;
                kc_vals_bool = map (\<lambda>kc. kc X_arr) (constraints known_constraints)
            in if list_all (\<lambda>b. b) kc_vals_bool then - 2 else 2) X"

text \<open>
  \<^verbatim>\<open>view(n, 1, d)\<close> puts every expanded point in a batch of one, and
  \<^verbatim>\<open>torch.tile(X, dims=(1, batch_size, 1))\<close> repeats that batch along its own
  dimension; a negative repeat count raises RuntimeError.
\<close>

definition view3 :: "real list list \<Rightarrow> real list list list" where
  "view3 X = map (\<lambda>x. [x]) X"

definition tile :: "int \<Rightarrow> real list list list \<Rightarrow> error + real list list list" where
  "tile reps X =
     (if reps < 0 then Inl RuntimeError
      else Inr (map (\<lambda>b. concat (replicate (nat reps) b)) X))"

record out =
  out_F :: "real list option"
  out_G :: "int list option"

definition evaluate :: "builtins \<Rightarrow> PymooProblemWrapper \<Rightarrow> population \<Rightarrow> out \<Rightarrow> error + out" where
  "evaluate py self X out =
     (case to_list_dicts (param_space (prob_params_obj self)) X of
        Inl e \<Rightarrow> Inl e
      | Inr Xd \<Rightarrow>
         (case pymoo_to_olympus py (param_space (prob_params_obj self)) (PopDicts Xd) of
            Inl e \<Rightarrow> Inl e
          | Inr param_vecs \<Rightarrow>
             (let X_olymp = param_vectors_to_expanded (prob_params_obj self) param_vecs False True
              in case tile (prob_batch_size self) (view3 (map (map (float32 py)) X_olymp)) of
                   Inl e \<Rightarrow> Inl e
                 | Inr X_torch \<Rightarrow>
                    (let f = map uminus (prob_acqf self X_torch);
                         out' = out\<lparr>out_F := Some f\<rparr>
                     in if \<not> is_empty (prob_known_constraints self)
                        then Inr (out'\<lparr>out_G :=
                               Some (known_constraints_wrapper (prob_known_constraints self) Xd)\<rparr>)
                        else Inr out'))))"

section \<open>Logging\<close>

text \<open>
  Modelled from the spec: \<^verbatim>\<open>atlas.Logger\<close> is not among the sources. The spec
  says of a fatal misconfiguration that it is "reported immediately and aborts the
  optimize call", and of a construction with too large a batch that it "must fail
  immediately": a message logged at level \<^verbatim>\<open>FATAL\<close> raises, with the message;
  at any other level the message is emitted and the caller goes on.
\<close>

definition Logger_log :: "string \<Rightarrow> string \<Rightarrow> error + string \<times> string" where
  "Logger_log msg level = (if level = ''FATAL'' then Inl (Fatal msg) else Inr (level, msg))"

text \<open>A call of the logger followed by the rest of the caller.\<close>

definition log_then :: "error + string \<times> string \<Rightarrow> error + 'a \<Rightarrow> error + 'a" where
  "log_then r rest = (case r of Inl e \<Rightarrow> Inl e | Inr _ \<Rightarrow> rest)"

section \<open>The optimizer: \<^verbatim>\<open>PymooGAOptimizer\<close>\<close>

record PymooGAOptimizer =
  opt_params_obj :: Parameters
  opt_known_constraints :: KnownConstraints
  opt_batch_size :: int
  opt_params :: "pyval list list"
  pop_size :: int
  num_gen :: int
  pymoo_space :: pymoo_space
  opt_xl :: "real list"
  opt_xu :: "real list"
  pymoo_problem :: PymooProblemWrapper
  algorithm_pop_size :: int

definition PymooGAOptimizer_init :: "Parameters \<Rightarrow> AcquisitionFunction \<Rightarrow> KnownConstraints \<Rightarrow> int \<Rightarrow>
    pyval list list \<Rightarrow> int \<Rightarrow> int \<Rightarrow> error + PymooGAOptimizer" where
  "PymooGAOptimizer_init params_obj acqf known_constraints batch_size params popsize numgen =
     (let rest =
        (case set_pymoo_param_space (param_space params_obj) of
           Inl e \<Rightarrow> Inl e
         | Inr (space, lower, upper) \<Rightarrow>
             Inr \<lparr> opt_params_obj = params_obj,
                   opt_known_constraints = known_constraints,
                   opt_batch_size = batch_size,
                   opt_params = params,
                   pop_size = popsize,
                   num_gen = numgen,
                   pymoo_space = space,
                   opt_xl = lower,
                   opt_xu = upper,
                   pymoo_problem =
                     PymooProblemWrapper_init params_obj space (lower, upper) acqf batch_size
                       known_constraints,
                   algorithm_pop_size = popsize \<rparr>)
      in if \<not> batch_size < popsize
         then log_then
                (Logger_log
                   ''You must use a larger pop_size for pymoo optimizer than the batch_size''
                   ''FATAL'')
                rest
         else rest)"

text \<open>
  \<^verbatim>\<open>_optimize\<close>: pymoo's \<^verbatim>\<open>minimize\<close> is the search itself and is taken as a
  parameter, from the problem, the population size of the algorithm and the evaluation
  budget to the final population \<^verbatim>\<open>res.pop\<close>.
\<close>

type_synonym minimize = "PymooProblemWrapper \<Rightarrow> int \<Rightarrow> int \<Rightarrow> population"

definition optimize :: "builtins \<Rightarrow> minimize \<Rightarrow> PymooGAOptimizer \<Rightarrow> error + ParameterVector list" where
  "optimize py minimize self =
     (let res_pop = minimize (pymoo_problem self) (algorithm_pop_size self) (num_gen self)
      in batch_sample_selector py (param_space (opt_params_obj self)) (opt_params self)
           (opt_batch_size self) res_pop)"

section \<open>The planner: \<^verbatim>\<open>BoTorchPlanner\<close>\<close>

text \<open>
  The planner after \<^verbatim>\<open>super().__init__(**local_args)\<close>, which stores the arguments
  as attributes; \<open>measured_params\<close> is \<^verbatim>\<open>self._params\<close>, \<open>acqf\<close> is
  \<^verbatim>\<open>self.acqf\<close> (the name of the acquisition class it holds, None before the first
  assignment), and \<open>logged\<close> collects the messages the planner has emitted.
\<close>

record BoTorchPlanner =
  acquisition_type :: string
  acquisition_optimizer_kind :: string
  general_parameters :: "int list option"
  batch_size :: int
  batched_strategy :: string
  params_obj :: Parameters
  known_constraints :: KnownConstraints
  measured_params :: "pyval list list"
  acqf :: "string option"
  logged :: "(string \<times> string) list"

definition BoTorchPlanner_init :: "BoTorchPlanner \<Rightarrow> error + BoTorchPlanner" where
  "BoTorchPlanner_init self =
     (if general_parameters self \<noteq> None then
        (if \<not> acquisition_type self = ''general'' then
           (let msg = ''Acquisition type '' @ acquisition_type self @
                  '' requested, but general parameters specified. Overriding to '' @
                  [CHR 0x22] @ ''general'' @ [CHR 0x22] @ ''...''
            in case Logger_log msg ''WARNING'' of
                 Inl e \<Rightarrow> Inl e
               | Inr entry \<Rightarrow>
                   Inr (self\<lparr>logged := logged self @ [entry], acquisition_type := ''general''\<rparr>))
         else Inr self)
      else Inr self)"

text \<open>
  \<^verbatim>\<open>get_aqcf_min_max\<close> binds its local \<^verbatim>\<open>acqf\<close> in a chain of tests on the
  acquisition type and then calls it; the numbers it samples are taken as the
  parameter \<open>sampled\<close> (for \<^verbatim>\<open>ucbv2\<close> the source returns two such pairs; the
  model keeps one, and nothing below reads it). For the type \<^verbatim>\<open>general\<close> it
  returns (0, 1) at once; for a type none of the tests knows, the call of the unbound
  local raises.
\<close>

definition get_aqcf_min_max :: "(string \<Rightarrow> real \<times> real) \<Rightarrow> string \<Rightarrow> error + real \<times> real" where
  "get_aqcf_min_max sampled acq_type =
     (if acq_type = ''general'' then Inr (0, 1)
      else if acq_type \<in> set [''ei'', ''qei'', ''ucb'', ''lcb'', ''ucbv2'', ''variance'']
      then Inr (sampled acq_type)
      else Inl UnboundLocalError)"

text \<open>
  The chain that builds the acquisition function in \<^verbatim>\<open>_ask\<close> and assigns it to
  \<^verbatim>\<open>self.acqf\<close>.
\<close>

definition build_acqf :: "BoTorchPlanner \<Rightarrow> error + BoTorchPlanner" where
  "build_acqf self =
     (if acquisition_type self = ''ei'' then
        (if batch_size self > 1 \<and> batched_strategy self = ''sequential''
         then log_then
                (Logger_log
                   (''Cannot use '' @ [CHR 0x22] @ ''sequential'' @ [CHR 0x22] @
                    '' batched strategy with EI acquisition function'')
                   ''FATAL'')
                (Inr (self\<lparr>acqf := Some ''FeasibilityAwareEI''\<rparr>))
         else Inr (self\<lparr>acqf := Some ''FeasibilityAwareEI''\<rparr>))
      else if acquisition_type self = ''qei'' then
        (if \<not> batch_size self > 1
         then log_then
                (Logger_log
                   ''QEI acquisition function can only be used if batch size > 1''
                   ''FATAL'')
                (Inr (self\<lparr>acqf := Some ''FeasibilityAwareQEI''\<rparr>))
         else Inr (self\<lparr>acqf := Some ''FeasibilityAwareQEI''\<rparr>))
      else if acquisition_type self = ''ucb'' then
        Inr (self\<lparr>acqf := Some ''FeasibilityAwareUCB''\<rparr>)
      else if acquisition_type self = ''lcb'' then
        Inr (self\<lparr>acqf := Some ''FeasibilityAwareLCB''\<rparr>)
      else if acquisition_type self = ''variance'' then
        Inr (self\<lparr>acqf := Some ''FeasibilityAwareVarainceBased''\<rparr>)
      else if acquisition_type self = ''general'' then
        Inr (self\<lparr>acqf := Some ''FeasibilityAwareGeneral''\<rparr>)
      else log_then
             (Logger_log
                (''Acquisition function type '' @ acquisition_type self @ '' not understood!'')
                ''FATAL'')
             (Inr self))"

text \<open>
  \<^verbatim>\<open>_ask\<close> from the point where the surrogate is fitted: the events record what
  has been done with the optimizer. The fitting of the surrogate models is outside
  these sources and leaves no event; \<open>init_phase\<close> is the test that sends the planner
  to its initial design instead. The gradient and the genetic optimizer are not among
  the sources: their \<^verbatim>\<open>optimize()\<close> is the parameter \<open>other_optimize\<close>. The pymoo
  optimizer is built with its default population size 200 and budget 5000. Reading
  \<^verbatim>\<open>self.acqf\<close> before any assignment raises AttributeError; calling
  \<^verbatim>\<open>optimize\<close> on the local \<^verbatim>\<open>acquisition_optimizer\<close> that no branch has bound
  raises UnboundLocalError.
\<close>

datatype event = OptimizerBuilt string | Search string

record collaborators =
  initial_design :: "ParameterVector list"
  sampled :: "string \<Rightarrow> real \<times> real"
  acqf_of :: "string \<Rightarrow> AcquisitionFunction"
  other_optimize :: "string \<Rightarrow> error + ParameterVector list"
  pymoo_minimize :: minimize

definition ask :: "builtins \<Rightarrow> collaborators \<Rightarrow> bool \<Rightarrow> BoTorchPlanner \<Rightarrow>
    event list \<times> (error + ParameterVector list)" where
  "ask py ext init_phase self0 =
     (if init_phase then ([], Inr (initial_design ext))
      else
        (case get_aqcf_min_max (sampled ext) (acquisition_type self0) of
           Inl e \<Rightarrow> ([], Inl e)
         | Inr acqf_min_max \<Rightarrow>
            (case build_acqf self0 of
               Inl e \<Rightarrow> ([], Inl e)
             | Inr self \<Rightarrow>
                (if acquisition_optimizer_kind self = ''gradient'' then
                   (case acqf self of
                      None \<Rightarrow> ([], Inl AttributeError)
                    | Some a \<Rightarrow>
                        ([OptimizerBuilt ''gradient'', Search ''gradient''],
                         other_optimize ext ''gradient''))
                 else if acquisition_optimizer_kind self = ''genetic'' then
                   (case acqf self of
                      None \<Rightarrow> ([], Inl AttributeError)
                    | Some a \<Rightarrow>
                        ([OptimizerBuilt ''genetic'', Search ''genetic''],
                         other_optimize ext ''genetic''))
                 else if acquisition_optimizer_kind self = ''pymoo'' then
                   (case acqf self of
                      None \<Rightarrow> ([], Inl AttributeError)
                    | Some a \<Rightarrow>
                       (case PymooGAOptimizer_init (params_obj self) (acqf_of ext a)
                               (known_constraints self) (batch_size self) (measured_params self)
                               200 5000 of
                          Inl e \<Rightarrow> ([], Inl e)
                        | Inr acquisition_optimizer \<Rightarrow>
                            ([OptimizerBuilt ''pymoo'', Search ''pymoo''],
                             optimize py (pymoo_minimize ext) acquisition_optimizer)))
                 else ([], Inl UnboundLocalError)))))"

section \<open>Valid parameter vectors\<close>

text \<open>
  The domain a parameter declares, for the values of a raw parameter vector: a float
  between the bounds of a continuous parameter, a float among the options of a
  discrete one, a string among the options of a categorical one. A valid vector has
  one value in the domain of each parameter of a space whose names are unique.
\<close>

fun in_domain :: "parameter \<Rightarrow> pyval \<Rightarrow> bool" where
  "in_domain (ParameterContinuous n lo hi) v =
     (case v of PyFloat r \<Rightarrow> lo \<le> r \<and> r \<le> hi | _ \<Rightarrow> False)"
| "in_domain (ParameterDiscrete n lo hi opts) v =
     (case v of PyFloat r \<Rightarrow> r \<in> set opts | _ \<Rightarrow> False)"
| "in_domain (ParameterCategorical n opts) v =
     (case v of PyStr s \<Rightarrow> s \<in> set opts | _ \<Rightarrow> False)"
| "in_domain (ParameterOther n) v = False"

definition valid_vector :: "parameter list \<Rightarrow> pyval list \<Rightarrow> bool" where
  "valid_vector ps v \<longleftrightarrow> distinct (map name ps) \<and> list_all2 in_domain ps v"

text \<open>
  The form the population backend gives a value \<open>x\<close> of a parameter: the float itself
  for a continuous parameter, an index into the option list at which \<open>x\<close> stands for
  a discrete one, the option string itself for a categorical one.
\<close>

fun encoded_as :: "parameter \<Rightarrow> pyval \<Rightarrow> pyval \<Rightarrow> bool" where
  "encoded_as (ParameterContinuous n lo hi) x e =
     (case e of PyFloat r \<Rightarrow> x = PyFloat r | _ \<Rightarrow> False)"
| "encoded_as (ParameterDiscrete n lo hi opts) x e =
     (case e of PyInt i \<Rightarrow> 0 \<le> i \<and> i < int (length opts) \<and> x = PyFloat (opts ! nat i)
      | _ \<Rightarrow> False)"
| "encoded_as (ParameterCategorical n opts) x e =
     (case e of PyStr s \<Rightarrow> x = PyStr s | _ \<Rightarrow> False)"
| "encoded_as (ParameterOther n) x e = False"

section \<open>Properties of the batch selector\<close>

lemma select_loop_prefix:
  "\<exists>n. select_loop P b acc (zip xs xs) = acc @ take n (filter (\<lambda>s. \<not> measured P s) xs)"
proof (induction xs arbitrary: acc)
  case Nil
  then show ?case by simp
next
  case (Cons x xs)
  show ?case
  proof (cases "measured P x")
    case True
    show ?thesis
    proof (cases "int (length acc) = b")
      case True
      with \<open>measured P x\<close>
      have "select_loop P b acc (zip (x # xs) (x # xs)) =
              acc @ take 0 (filter (\<lambda>s. \<not> measured P s) (x # xs))"
        by simp
      then show ?thesis by blast
    next
      case False
      with \<open>measured P x\<close> Cons.IH[of acc] show ?thesis by simp
    qed
  next
    case False
    show ?thesis
    proof (cases "int (length acc) + 1 = b")
      case True
      with \<open>\<not> measured P x\<close>
      have "select_loop P b acc (zip (x # xs) (x # xs)) =
              acc @ take 1 (filter (\<lambda>s. \<not> measured P s) (x # xs))"
        by simp
      then show ?thesis by blast
    next
      case F: False
      from Cons.IH[of "acc @ [x]"] obtain n where
        n: "select_loop P b (acc @ [x]) (zip xs xs) =
              (acc @ [x]) @ take n (filter (\<lambda>s. \<not> measured P s) xs)"
        by blast
      with False F
      have "select_loop P b acc (zip (x # xs) (x # xs)) =
              acc @ take (Suc n) (filter (\<lambda>s. \<not> measured P s) (x # xs))"
        by simp
      then show ?thesis by blast
    qed
  qed
qed

lemma select_loop_take:
  "int (length acc) < b \<Longrightarrow>
   select_loop P b acc (zip xs xs) =
     acc @ take (nat b - length acc) (filter (\<lambda>s. \<not> measured P s) xs)"
proof (induction xs arbitrary: acc)
  case Nil
  then show ?case by simp
next
  case (Cons x xs)
  show ?case
  proof (cases "measured P x")
    case True
    with Cons show ?thesis by simp
  next
    case False
    show ?thesis
    proof (cases "int (length acc) + 1 = b")
      case True
      then have "nat b - length acc = Suc 0" by linarith
      with True False show ?thesis by simp
    next
      case F: False
      with Cons.prems have lt: "int (length (acc @ [x])) < b" by simp
      from Cons.prems have "nat b - length acc = Suc (nat b - length (acc @ [x]))" by simp
      with Cons.IH[OF lt] False F show ?thesis by simp
    qed
  qed
qed

lemma batch_sample_selector_decoded:
  "batch_sample_selector py ps P b pop = Inr batch \<Longrightarrow>
   \<exists>decoded. pymoo_to_olympus py ps pop = Inr decoded \<and>
     batch = select_loop P b [] (zip decoded decoded)"
  by (auto simp: batch_sample_selector_def split: sum.splits)

lemma measured_iff: "measured P s \<longleftrightarrow> (\<exists>row\<in>set P. row_eq row s)"
  by (simp add: measured_def list_ex_iff)

text \<open>
  What the selector does guarantee: every point of the returned batch is a decoded
  candidate of the population that agrees with no previously-measured row in all its
  columns, and the batch is free of repeated points when the decoded population is.
\<close>

lemma batch_sample_selector_unmeasured:
  assumes "batch_sample_selector py ps P b pop = Inr batch"
  shows "\<exists>decoded.
           pymoo_to_olympus py ps pop = Inr decoded \<and>
           (\<forall>s\<in>set batch. s \<in> set decoded \<and> (\<forall>row\<in>set P. \<not> row_eq row s)) \<and>
           (distinct decoded \<longrightarrow> distinct batch)"
proof -
  from batch_sample_selector_decoded[OF assms] obtain decoded where
    dec: "pymoo_to_olympus py ps pop = Inr decoded"
    and b: "batch = select_loop P b [] (zip decoded decoded)"
    by blast
  from select_loop_prefix[of P b "[]" decoded] b
  obtain n where n: "batch = take n (filter (\<lambda>s. \<not> measured P s) decoded)"
    by auto
  have "\<forall>s\<in>set batch. s \<in> set decoded \<and> (\<forall>row\<in>set P. \<not> row_eq row s)"
  proof
    fix s assume "s \<in> set batch"
    with n have "s \<in> set (filter (\<lambda>s. \<not> measured P s) decoded)"
      by (auto dest: in_set_takeD)
    then show "s \<in> set decoded \<and> (\<forall>row\<in>set P. \<not> row_eq row s)"
      by (simp add: measured_iff)
  qed
  moreover have "distinct decoded \<longrightarrow> distinct batch"
    using n by simp
  ultimately show ?thesis using dec by blast
qed

text \<open>
  C1 fails on the code. The selector compares a candidate with the measured rows only,
  never with the batch it is building, and the option \<^verbatim>\<open>eliminate_duplicates\<close>
  that the constructor takes (True by default) is stored and never used. Here the
  discrete parameter lists the value 2 twice: the two individuals of the final
  population differ (indices 1 and 2), both decode to the point d = 2, no point is
  measured, and \<^verbatim>\<open>optimize\<close> returns that point twice in a batch of size 2.
\<close>

theorem C1_equal_points_in_batch:
  "(case PymooGAOptimizer_init
           \<lparr>param_space = [ParameterDiscrete ''d'' 1 2 [1, 2, 2]],
        param_vectors_to_expanded = (\<lambda>vs a b. [])\<rparr>
           (\<lambda>X. []) \<lparr>is_empty = True, constraints = []\<rparr> 2 [] 200 5000 of
      Inl e \<Rightarrow> Inl e
    | Inr self \<Rightarrow>
        optimize \<lparr>float_of_str = (\<lambda>s. None), str_of_num = (\<lambda>v. []), float32 = (\<lambda>r. r)\<rparr>
          (\<lambda>problem popsize numgen. PopDicts [[(''d'', PyInt 1)], [(''d'', PyInt 2)]])
          self)
   = Inr [[(''d'', PyFloat 2)], [(''d'', PyFloat 2)]] \<and>
   distinct [[(''d'', PyInt 1)], [(''d'', PyInt 2)]] \<and>
   \<not> distinct [[(''d'', PyFloat 2)], [(''d'', PyFloat 2)]]"
  by (simp add: PymooGAOptimizer_init_def set_pymoo_param_space_def optimize_def
      batch_sample_selector_def pymoo_to_olympus_def to_list_dicts_def decode_sample_def
      dict_get_def list_getitem_def measured_def)

text \<open>
  C2, as the code has it. For a batch size of at least one and a population that
  decodes, the selector returns, without an error, the first \<open>batch_size\<close> decoded
  candidates that are not measured, in the order of the population; the batch is
  shorter when the population has fewer of them.
\<close>

theorem C2_selector_takes_first_unmeasured:
  assumes "1 \<le> b" and "pymoo_to_olympus py ps pop = Inr decoded"
  shows "\<exists>batch. batch_sample_selector py ps P b pop = Inr batch \<and>
           batch = take (nat b) (filter (\<lambda>s. \<not> measured P s) decoded) \<and>
           int (length batch) \<le> b"
proof -
  from assms(1) have "int (length ([] :: ParameterVector list)) < b" by simp
  from select_loop_take[OF this, of P decoded]
  have "select_loop P b [] (zip decoded decoded) =
          take (nat b) (filter (\<lambda>s. \<not> measured P s) decoded)"
    by simp
  moreover have "int (length (take (nat b) (filter (\<lambda>s. \<not> measured P s) decoded))) \<le> b"
    using assms(1) by simp
  ultimately show ?thesis
    using assms(2) by (simp add: batch_sample_selector_def)
qed

theorem C2_witness:
  "batch_sample_selector
     \<lparr>float_of_str = (\<lambda>s. None), str_of_num = (\<lambda>v. []), float32 = (\<lambda>r. r)\<rparr>
     [ParameterDiscrete ''d'' 1 3 [1, 2, 3], ParameterCategorical ''c'' [''a'', ''b'']]
     [[PyFloat 1, PyStr ''a'']] 3
     (PopDicts [[(''d'', PyInt 0), (''c'', PyStr ''a'')], [(''d'', PyInt 2), (''c'', PyStr ''b'')]])
   = Inr [[(''d'', PyFloat 3), (''c'', PyStr ''b'')]]"
proof -
  let ?py = "\<lparr>float_of_str = (\<lambda>s. None), str_of_num = (\<lambda>v. []), float32 = (\<lambda>r. r)\<rparr>"
  let ?ps = "[ParameterDiscrete ''d'' 1 3 [1, 2, 3], ParameterCategorical ''c'' [''a'', ''b'']]"
  let ?pop = "PopDicts [[(''d'', PyInt 0), (''c'', PyStr ''a'')],
                        [(''d'', PyInt 2), (''c'', PyStr ''b'')]]"
  have b: "(1::int) \<le> 3" by simp
  have dec: "pymoo_to_olympus ?py ?ps ?pop =
      Inr [[(''d'', PyFloat 1), (''c'', PyStr ''a'')], [(''d'', PyFloat 3), (''c'', PyStr ''b'')]]"
    by (simp add: pymoo_to_olympus_def to_list_dicts_def decode_sample_def dict_get_def list_getitem_def)
  from C2_selector_takes_first_unmeasured[OF b dec, of "[[PyFloat 1, PyStr ''a'']]"]
  show ?thesis
    by (simp add: measured_def row_eq_def dict_values_def)
qed

text \<open>
  C2 as stated fails twice. With a batch size of 0 the length test, made after the
  append, never holds once a candidate has been taken: both candidates are returned.
  And the empty population does not give the empty batch: \<^verbatim>\<open>samples[0]\<close> raises.
\<close>

theorem C2_counterexample:
  "batch_sample_selector
     \<lparr>float_of_str = (\<lambda>s. None), str_of_num = (\<lambda>v. []), float32 = (\<lambda>r. r)\<rparr>
     [ParameterContinuous ''x'' 0 1] [] 0
     (PopDicts [[(''x'', PyFloat 0)], [(''x'', PyFloat 1)]])
   = Inr [[(''x'', PyFloat 0)], [(''x'', PyFloat 1)]] \<and>
   \<not> int (length [[(''x'', PyFloat 0)], [(''x'', PyFloat 1 :: pyval)]]) \<le> 0 \<and>
   batch_sample_selector
     \<lparr>float_of_str = (\<lambda>s. None), str_of_num = (\<lambda>v. []), float32 = (\<lambda>r. r)\<rparr>
     [ParameterContinuous ''x'' 0 1] [] 1 (PopDicts [])
   = Inl IndexError"
  by (simp add: batch_sample_selector_def pymoo_to_olympus_def to_list_dicts_def decode_sample_def dict_get_def
      measured_def row_eq_def dict_values_def)

section \<open>Construction of the optimizer\<close>

lemma log_fatal: "log_then (Logger_log msg ''FATAL'') rest = Inl (Fatal msg)"
  by (simp add: log_then_def Logger_log_def)

lemma set_param_loop_error:
  "set_param_loop acc ps = Inl e \<Longrightarrow> e = ValueError"
proof (induction ps arbitrary: acc)
  case Nil
  then show ?case by simp
next
  case (Cons p ps)
  obtain space lower upper where acc: "acc = (space, lower, upper)" using prod_cases3 by blast
  show ?case
  proof (cases p)
    case (ParameterOther n)
    with Cons.prems acc show ?thesis by simp
  qed (use Cons acc in \<open>auto split: sum.splits\<close>)
qed

lemma set_param_loop_ok:
  "\<forall>n. ParameterOther n \<notin> set ps \<Longrightarrow> \<exists>r. set_param_loop acc ps = Inr r"
proof (induction ps arbitrary: acc)
  case Nil
  show ?case by (rule exI[of _ acc]) simp
next
  case (Cons p ps)
  obtain space lower upper where acc: "acc = (space, lower, upper)" using prod_cases3 by blast
  from Cons.prems have rest: "\<forall>n. ParameterOther n \<notin> set ps" by simp
  show ?case
  proof (cases p)
    case (ParameterOther n)
    from Cons.prems have "ParameterOther n \<notin> set (p # ps)" by blast
    with ParameterOther show ?thesis by simp
  qed (use Cons.IH[OF rest] acc in \<open>auto\<close>)
qed

text \<open>
  C3. When the batch size is not below the population size, the constructor ends in
  the fatal log call, before the parameter space or the problem is set up. When it is
  below, no fatal error comes out of the constructor, and with a parameter space of
  continuous, discrete and categorical parameters the optimizer is built.
\<close>

theorem C3_construction_checks_batch_size:
  "(\<not> bs < popsize \<longrightarrow>
      PymooGAOptimizer_init pobj af kc bs ms popsize numgen =
        Inl (Fatal ''You must use a larger pop_size for pymoo optimizer than the batch_size'')) \<and>
   (bs < popsize \<longrightarrow>
      (\<forall>msg. PymooGAOptimizer_init pobj af kc bs ms popsize numgen
          \<noteq> Inl (Fatal msg)) \<and>
      ((\<forall>n. ParameterOther n \<notin> set (param_space pobj)) \<longrightarrow>
         (\<exists>self. PymooGAOptimizer_init pobj af kc bs ms popsize numgen
            = Inr self \<and> opt_batch_size self = bs \<and> pop_size self = popsize)))"
proof (intro conjI impI allI)
  assume "\<not> bs < popsize"
  then show "PymooGAOptimizer_init pobj af kc bs ms popsize numgen =
        Inl (Fatal ''You must use a larger pop_size for pymoo optimizer than the batch_size'')"
    by (simp add: PymooGAOptimizer_init_def Let_def log_fatal)
next
  fix msg assume "bs < popsize"
  then show "PymooGAOptimizer_init pobj af kc bs ms popsize numgen
          \<noteq> Inl (Fatal msg)"
    by (auto simp: PymooGAOptimizer_init_def Let_def set_pymoo_param_space_def
        split: sum.splits dest: set_param_loop_error)
next
  assume "bs < popsize" and "\<forall>n. ParameterOther n \<notin> set (param_space pobj)"
  with set_param_loop_ok[of "param_space pobj" "([], [], [])"]
  show "\<exists>self. PymooGAOptimizer_init pobj af kc bs ms popsize numgen
            = Inr self \<and> opt_batch_size self = bs \<and> pop_size self = popsize"
    by (auto simp: PymooGAOptimizer_init_def Let_def set_pymoo_param_space_def)
qed

theorem C3_witness:
  "PymooGAOptimizer_init
     \<lparr>param_space = [ParameterContinuous ''x'' 0 1], param_vectors_to_expanded = (\<lambda>vs a b. [])\<rparr>
     (\<lambda>X. []) \<lparr>is_empty = True, constraints = []\<rparr> 200 [] 200 5000 =
     Inl (Fatal ''You must use a larger pop_size for pymoo optimizer than the batch_size'') \<and>
   (\<exists>self. PymooGAOptimizer_init
     \<lparr>param_space = [ParameterContinuous ''x'' 0 1], param_vectors_to_expanded = (\<lambda>vs a b. [])\<rparr>
     (\<lambda>X. []) \<lparr>is_empty = True, constraints = []\<rparr> 199 [] 200 5000 = Inr self \<and>
     opt_batch_size self = 199 \<and> pop_size self = 200)"
  using
    C3_construction_checks_batch_size[of 200 200
      "\<lparr>param_space = [ParameterContinuous ''x'' 0 1], param_vectors_to_expanded = (\<lambda>vs a b. [])\<rparr>"
      "\<lambda>X. []" "\<lparr>is_empty = True, constraints = []\<rparr>" "[]" 5000]
    C3_construction_checks_batch_size[of 199 200
      "\<lparr>param_space = [ParameterContinuous ''x'' 0 1], param_vectors_to_expanded = (\<lambda>vs a b. [])\<rparr>"
      "\<lambda>X. []" "\<lparr>is_empty = True, constraints = []\<rparr>" "[]" 5000]
  by simp

section \<open>Known constraints\<close>

text \<open>
  The margin of the dict at position \<open>i\<close> is at most the negative threshold -2
  exactly when every constraint predicate holds on the list of the values of that
  dict, and is greater than 0 exactly when some predicate fails.
\<close>

lemma known_constraints_wrapper_margin:
  assumes "i < length X"
  shows "length (known_constraints_wrapper kc X) = length X \<and>
         (known_constraints_wrapper kc X ! i \<le> - 2 \<longleftrightarrow>
            (\<forall>c\<in>set (constraints kc). c (dict_values (X ! i)))) \<and>
         (known_constraints_wrapper kc X ! i > 0 \<longleftrightarrow>
            \<not> (\<forall>c\<in>set (constraints kc). c (dict_values (X ! i))))"
  using assms by (simp add: known_constraints_wrapper_def Let_def list_all_iff)

text \<open>
  C4 fails on the code. \<^verbatim>\<open>_evaluate\<close> decodes the candidates for the acquisition
  function and hands the dicts as pymoo made them to the known-constraints wrapper, so
  a predicate receives the option index of a discrete parameter where it expects the
  option value. The space and the predicate are those of the fully discrete test
  (\<^verbatim>\<open>known_constraints_fully_disc\<close>). The candidate with the indices (1, 0, 0)
  has the raw values (0.1, 0, 0), on which the predicate holds; on the indices it
  fails (1 > 0.7 and 0 < 0.25), and the margin stored for the candidate is 2.
\<close>

theorem C4_predicates_run_on_indices:
  "pymoo_to_olympus \<lparr>float_of_str = (\<lambda>s. None), str_of_num = (\<lambda>v. []), float32 = (\<lambda>r. r)\<rparr>
     [ParameterDiscrete ''param_0'' 0 1 [0, 1 / 10, 3 / 10, 1 / 2, 7 / 10, 9 / 10, 1],
         ParameterDiscrete ''param_1'' 0 1 [0, 1 / 4, 1 / 2, 3 / 4, 1],
         ParameterDiscrete ''param_2'' 0 1 [0, 1 / 4, 1 / 2, 3 / 4, 1]]
     (PopDicts [[(''param_0'', PyInt 1), (''param_1'', PyInt 0), (''param_2'', PyInt 0)]])
   = Inr [[(''param_0'', PyFloat (1 / 10)), (''param_1'', PyFloat 0), (''param_2'', PyFloat 0)]] \<and>
   (\<lambda>params.
          \<not> (7 / 10 < (\<lambda>v. case v of PyFloat r \<Rightarrow> r | PyInt i \<Rightarrow> of_int i | PyStr s \<Rightarrow> 0) (params ! 0) \<and>
             (\<lambda>v. case v of PyFloat r \<Rightarrow> r | PyInt i \<Rightarrow> of_int i | PyStr s \<Rightarrow> 0) (params ! 2) < 1 / 4) \<and>
          \<not> ((\<lambda>v. case v of PyFloat r \<Rightarrow> r | PyInt i \<Rightarrow> of_int i | PyStr s \<Rightarrow> 0) (params ! 1) = 1 / 2 \<and>
             1 / 2 < (\<lambda>v. case v of PyFloat r \<Rightarrow> r | PyInt i \<Rightarrow> of_int i | PyStr s \<Rightarrow> 0) (params ! 2)))
     (dict_values [(''param_0'', PyFloat (1 / 10)), (''param_1'', PyFloat 0), (''param_2'', PyFloat 0)]) \<and>
   evaluate \<lparr>float_of_str = (\<lambda>s. None), str_of_num = (\<lambda>v. []), float32 = (\<lambda>r. r)\<rparr>
     (PymooProblemWrapper_init
      \<lparr>param_space =
        [ParameterDiscrete ''param_0'' 0 1 [0, 1 / 10, 3 / 10, 1 / 2, 7 / 10, 9 / 10, 1],
         ParameterDiscrete ''param_1'' 0 1 [0, 1 / 4, 1 / 2, 3 / 4, 1],
         ParameterDiscrete ''param_2'' 0 1 [0, 1 / 4, 1 / 2, 3 / 4, 1]],
      param_vectors_to_expanded = (\<lambda>vs a b. map (\<lambda>v. [0]) vs)\<rparr>
      [(''param_0'', Integer 0 6), (''param_1'', Integer 0 4), (''param_2'', Integer 0 4)] ([0, 0, 0], [1, 1, 1])
      (\<lambda>X. map (\<lambda>b. 1) X) 1
      \<lparr>is_empty = False, constraints = [(\<lambda>params.
          \<not> (7 / 10 < (\<lambda>v. case v of PyFloat r \<Rightarrow> r | PyInt i \<Rightarrow> of_int i | PyStr s \<Rightarrow> 0) (params ! 0) \<and>
             (\<lambda>v. case v of PyFloat r \<Rightarrow> r | PyInt i \<Rightarrow> of_int i | PyStr s \<Rightarrow> 0) (params ! 2) < 1 / 4) \<and>
          \<not> ((\<lambda>v. case v of PyFloat r \<Rightarrow> r | PyInt i \<Rightarrow> of_int i | PyStr s \<Rightarrow> 0) (params ! 1) = 1 / 2 \<and>
             1 / 2 < (\<lambda>v. case v of PyFloat r \<Rightarrow> r | PyInt i \<Rightarrow> of_int i | PyStr s \<Rightarrow> 0) (params ! 2)))]\<rparr>)
     (PopDicts [[(''param_0'', PyInt 1), (''param_1'', PyInt 0), (''param_2'', PyInt 0)]])
     \<lparr>out_F = None, out_G = None\<rparr>
   = Inr \<lparr>out_F = Some [- 1], out_G = Some [2]\<rparr>"
  by (simp add: evaluate_def PymooProblemWrapper_init_def pymoo_to_olympus_def to_list_dicts_def
      decode_sample_def dict_get_def list_getitem_def tile_def view3_def
      known_constraints_wrapper_def dict_values_def)

section \<open>Misconfiguration\<close>

lemma set_param_loop_other:
  "ParameterOther n \<in> set ps \<Longrightarrow> set_param_loop acc ps = Inl ValueError"
proof (induction ps arbitrary: acc)
  case Nil
  then show ?case by simp
next
  case (Cons p ps)
  obtain space lower upper where acc: "acc = (space, lower, upper)"
    using prod_cases3 by blast
  show ?case
  proof (cases p)
    case (ParameterOther m)
    with acc show ?thesis by simp
  next
    case (ParameterContinuous m lo hi)
    with Cons acc show ?thesis by auto
  next
    case (ParameterDiscrete m lo hi opts)
    with Cons acc show ?thesis by auto
  next
    case (ParameterCategorical m opts)
    with Cons acc show ?thesis by auto
  qed
qed

lemma init_other:
  assumes "ParameterOther n \<in> set (param_space pobj)"
  shows "\<exists>e. PymooGAOptimizer_init pobj af kc bs ms popsize numgen = Inl e"
  using set_param_loop_other[OF assms, of "([], [], [])"]
  by (simp add: PymooGAOptimizer_init_def Let_def set_pymoo_param_space_def log_fatal)


lemma build_acqf_unknown:
  assumes "acquisition_type self \<notin> set [''ei'', ''qei'', ''ucb'', ''lcb'', ''variance'', ''general'']"
  shows "build_acqf self =
           Inl (Fatal (''Acquisition function type '' @ acquisition_type self @ '' not understood!''))"
proof -
  from assms have "acquisition_type self \<noteq> ''ei''" "acquisition_type self \<noteq> ''qei''"
    "acquisition_type self \<noteq> ''ucb''" "acquisition_type self \<noteq> ''lcb''"
    "acquisition_type self \<noteq> ''variance''" "acquisition_type self \<noteq> ''general''"
    by simp_all
  then show ?thesis
    unfolding build_acqf_def by (simp only: if_False log_fatal)
qed

lemma build_acqf_cases:
  "(\<exists>m. build_acqf self = Inl (Fatal m)) \<or> (\<exists>a. build_acqf self = Inr (self\<lparr>acqf := Some a\<rparr>))"
proof (cases "acquisition_type self \<in> set [''ei'', ''qei'', ''ucb'', ''lcb'', ''variance'', ''general'']")
  case False
  from build_acqf_unknown[OF this] show ?thesis by blast
next
  case True
  then consider "acquisition_type self = ''ei''" | "acquisition_type self = ''qei''"
    | "acquisition_type self = ''ucb''" | "acquisition_type self = ''lcb''"
    | "acquisition_type self = ''variance''" | "acquisition_type self = ''general''"
    by auto
  then show ?thesis
  proof cases
    case 1
    show ?thesis
    proof (cases "batch_size self > 1 \<and> batched_strategy self = ''sequential''")
      case True
      with 1 have "\<exists>m. build_acqf self = Inl (Fatal m)"
        unfolding build_acqf_def by (simp add: log_fatal)
      then show ?thesis ..
    next
      case False
      have "build_acqf self = Inr (self\<lparr>acqf := Some ''FeasibilityAwareEI''\<rparr>)"
        by (simp add: build_acqf_def 1 False)
      then show ?thesis by blast
    qed
  next
    case 2
    show ?thesis
    proof (cases "batch_size self > 1")
      case False
      with 2 have "\<exists>m. build_acqf self = Inl (Fatal m)"
        unfolding build_acqf_def by (simp add: log_fatal)
      then show ?thesis ..
    next
      case True
      with 2 have "build_acqf self = Inr (self\<lparr>acqf := Some ''FeasibilityAwareQEI''\<rparr>)"
        unfolding build_acqf_def by simp
      then show ?thesis by blast
    qed
  next
    case 3
    then have "build_acqf self = Inr (self\<lparr>acqf := Some ''FeasibilityAwareUCB''\<rparr>)"
      unfolding build_acqf_def by simp
    then show ?thesis by blast
  next
    case 4
    then have "build_acqf self = Inr (self\<lparr>acqf := Some ''FeasibilityAwareLCB''\<rparr>)"
      unfolding build_acqf_def by simp
    then show ?thesis by blast
  next
    case 5
    then have "build_acqf self = Inr (self\<lparr>acqf := Some ''FeasibilityAwareVarainceBased''\<rparr>)"
      unfolding build_acqf_def by simp
    then show ?thesis by blast
  next
    case 6
    then have "build_acqf self = Inr (self\<lparr>acqf := Some ''FeasibilityAwareGeneral''\<rparr>)"
      unfolding build_acqf_def by simp
    then show ?thesis by blast
  qed
qed


lemma ask_early_min_max:
  assumes "get_aqcf_min_max (sampled ext) (acquisition_type self) = Inl e"
  shows "ask py ext False self = ([], Inl e)"
  by (simp add: ask_def assms)

lemma ask_early_build:
  assumes "get_aqcf_min_max (sampled ext) (acquisition_type self) = Inr r"
    and "build_acqf self = Inl e"
  shows "ask py ext False self = ([], Inl e)"
  by (simp add: ask_def assms)

lemma ask_kind_unknown_built:
  assumes "get_aqcf_min_max (sampled ext) (acquisition_type self) = Inr r"
    and "build_acqf self = Inr (self\<lparr>acqf := Some a\<rparr>)"
    and "acquisition_optimizer_kind self \<noteq> ''gradient''"
    and "acquisition_optimizer_kind self \<noteq> ''genetic''"
    and "acquisition_optimizer_kind self \<noteq> ''pymoo''"
  shows "ask py ext False self = ([], Inl UnboundLocalError)"
  by (simp add: ask_def assms)

lemma ask_pymoo_init_fails:
  assumes "get_aqcf_min_max (sampled ext) (acquisition_type self) = Inr r"
    and "build_acqf self = Inr (self\<lparr>acqf := Some a\<rparr>)"
    and "acquisition_optimizer_kind self = ''pymoo''"
    and "PymooGAOptimizer_init (params_obj self) (acqf_of ext a)
           (known_constraints self) (batch_size self) (measured_params self) 200 5000 = Inl e"
  shows "ask py ext False self = ([], Inl e)"
  by (simp add: ask_def assms)


lemma ask_acqf_unknown:
  assumes "acquisition_type self \<notin> set [''ei'', ''qei'', ''ucb'', ''lcb'', ''variance'', ''general'']"
  shows "\<exists>e. ask py ext False self = ([], Inl e)"
proof (cases "get_aqcf_min_max (sampled ext) (acquisition_type self)")
  case (Inl e)
  from ask_early_min_max[OF this] show ?thesis by blast
next
  case (Inr r)
  from ask_early_build[OF Inr build_acqf_unknown[OF assms]] show ?thesis by blast
qed

lemma ask_kind_unknown:
  assumes "acquisition_optimizer_kind self \<notin> set [''gradient'', ''genetic'', ''pymoo'']"
  shows "\<exists>e. ask py ext False self = ([], Inl e)"
proof (cases "get_aqcf_min_max (sampled ext) (acquisition_type self)")
  case (Inl e)
  from ask_early_min_max[OF this] show ?thesis by blast
next
  case (Inr r)
  from assms have k: "acquisition_optimizer_kind self \<noteq> ''gradient''"
    "acquisition_optimizer_kind self \<noteq> ''genetic''"
    "acquisition_optimizer_kind self \<noteq> ''pymoo''"
    by simp_all
  from build_acqf_cases[of self] show ?thesis
  proof
    assume "\<exists>m. build_acqf self = Inl (Fatal m)"
    then obtain m where "build_acqf self = Inl (Fatal m)" ..
    from ask_early_build[OF Inr this] show ?thesis by blast
  next
    assume "\<exists>a. build_acqf self = Inr (self\<lparr>acqf := Some a\<rparr>)"
    then obtain a where "build_acqf self = Inr (self\<lparr>acqf := Some a\<rparr>)" ..
    from ask_kind_unknown_built[OF Inr this k] show ?thesis by blast
  qed
qed

lemma ask_param_other:
  assumes "acquisition_optimizer_kind self = ''pymoo''"
    and "ParameterOther n \<in> set (param_space (params_obj self))"
  shows "\<exists>e. ask py ext False self = ([], Inl e)"
proof (cases "get_aqcf_min_max (sampled ext) (acquisition_type self)")
  case (Inl e)
  from ask_early_min_max[OF this] show ?thesis by blast
next
  case (Inr r)
  from build_acqf_cases[of self] show ?thesis
  proof
    assume "\<exists>m. build_acqf self = Inl (Fatal m)"
    then obtain m where "build_acqf self = Inl (Fatal m)" ..
    from ask_early_build[OF Inr this] show ?thesis by blast
  next
    assume "\<exists>a. build_acqf self = Inr (self\<lparr>acqf := Some a\<rparr>)"
    then obtain a where b: "build_acqf self = Inr (self\<lparr>acqf := Some a\<rparr>)" ..
    from init_other[OF assms(2)] obtain e where
      "PymooGAOptimizer_init (params_obj self) (acqf_of ext a)
         (known_constraints self) (batch_size self) (measured_params self) 200 5000 = Inl e"
      by blast
    from ask_pymoo_init_fails[OF Inr b assms(1) this] show ?thesis by blast
  qed
qed

text \<open>
  C5 fails on the code. The chain of tests on the optimizer kind has no
  \<^verbatim>\<open>else\<close> branch (the chain on the acquisition type, just above it, ends in a
  fatal log call): with the unknown kind \<^verbatim>\<open>annealing\<close> the acquisition function
  is built, no optimizer is, and the call of \<^verbatim>\<open>optimize\<close> on the unbound local
  raises UnboundLocalError; nothing reports the misconfiguration. And the fatal log
  call for an unknown acquisition type is not reached: with the type \<^verbatim>\<open>foo\<close>,
  \<^verbatim>\<open>get_aqcf_min_max\<close>, called first, raises UnboundLocalError on its own
  unbound local.
\<close>

theorem C5_unknown_kind_unbound_local:
  "build_acqf
     \<lparr>acquisition_type = ''ucb'', acquisition_optimizer_kind = ''annealing'',
      general_parameters = None, batch_size = 1, batched_strategy = ''sequential'',
      params_obj = \<lparr>param_space = [ParameterContinuous ''x'' 0 1],
        param_vectors_to_expanded = (\<lambda>vs a b. [])\<rparr>,
      known_constraints = \<lparr>is_empty = True, constraints = []\<rparr>,
      measured_params = [], acqf = None, logged = []\<rparr>
   = Inr \<lparr>acquisition_type = ''ucb'', acquisition_optimizer_kind = ''annealing'',
      general_parameters = None, batch_size = 1, batched_strategy = ''sequential'',
      params_obj = \<lparr>param_space = [ParameterContinuous ''x'' 0 1],
        param_vectors_to_expanded = (\<lambda>vs a b. [])\<rparr>,
      known_constraints = \<lparr>is_empty = True, constraints = []\<rparr>,
      measured_params = [], acqf = Some ''FeasibilityAwareUCB'', logged = []\<rparr> \<and>
   ask \<lparr>float_of_str = (\<lambda>s. None), str_of_num = (\<lambda>v. []), float32 = (\<lambda>r. r)\<rparr>
     \<lparr>initial_design = [], sampled = (\<lambda>t. (0, 1)), acqf_of = (\<lambda>n X. []),
      other_optimize = (\<lambda>k. Inr []), pymoo_minimize = (\<lambda>p n g. PopDicts [])\<rparr>
     False
     \<lparr>acquisition_type = ''ucb'', acquisition_optimizer_kind = ''annealing'',
      general_parameters = None, batch_size = 1, batched_strategy = ''sequential'',
      params_obj = \<lparr>param_space = [ParameterContinuous ''x'' 0 1],
        param_vectors_to_expanded = (\<lambda>vs a b. [])\<rparr>,
      known_constraints = \<lparr>is_empty = True, constraints = []\<rparr>,
      measured_params = [], acqf = None, logged = []\<rparr>
   = ([], Inl UnboundLocalError) \<and>
   get_aqcf_min_max (\<lambda>t. (0, 1)) ''foo'' = Inl UnboundLocalError \<and>
   ask \<lparr>float_of_str = (\<lambda>s. None), str_of_num = (\<lambda>v. []), float32 = (\<lambda>r. r)\<rparr>
     \<lparr>initial_design = [], sampled = (\<lambda>t. (0, 1)), acqf_of = (\<lambda>n X. []),
      other_optimize = (\<lambda>k. Inr []), pymoo_minimize = (\<lambda>p n g. PopDicts [])\<rparr>
     False
     \<lparr>acquisition_type = ''foo'', acquisition_optimizer_kind = ''gradient'',
      general_parameters = None, batch_size = 1, batched_strategy = ''sequential'',
      params_obj = \<lparr>param_space = [ParameterContinuous ''x'' 0 1],
        param_vectors_to_expanded = (\<lambda>vs a b. [])\<rparr>,
      known_constraints = \<lparr>is_empty = True, constraints = []\<rparr>,
      measured_params = [], acqf = None, logged = []\<rparr>
   = ([], Inl UnboundLocalError)"
  by (simp add: ask_def get_aqcf_min_max_def build_acqf_def)

section \<open>Evaluation of the problem\<close>

lemma pymoo_to_olympus_dicts:
  assumes "to_list_dicts ps X = Inr Xd"
  shows "pymoo_to_olympus py ps (PopDicts Xd) = pymoo_to_olympus py ps X"
  using assms
  by (auto simp: pymoo_to_olympus_def to_list_dicts_def X_to_list_dicts_def split: population.splits list.splits)

lemma tile_view3:
  "0 \<le> b \<Longrightarrow> tile b (view3 X) = Inr (map (\<lambda>x. replicate (nat b) x) X)"
proof -
  have "concat (replicate n [x]) = replicate n x" for n and x :: "real list"
    by (induction n) simp_all
  then show "0 \<le> b \<Longrightarrow> tile b (view3 X) = Inr (map (\<lambda>x. replicate (nat b) x) X)"
    by (simp add: tile_def view3_def)
qed

lemma evaluate_eq:
  assumes "to_list_dicts (param_space (prob_params_obj self)) X = Inr Xd"
    and "pymoo_to_olympus py (param_space (prob_params_obj self)) X = Inr param_vecs"
    and "0 \<le> prob_batch_size self"
  shows "evaluate py self X out =
     Inr (out\<lparr>out_F := Some (map uminus (prob_acqf self
                  (map (\<lambda>x. replicate (nat (prob_batch_size self)) (map (float32 py) x))
                     (param_vectors_to_expanded (prob_params_obj self) param_vecs False True)))),
              out_G := (if is_empty (prob_known_constraints self) then out_G out
                        else Some (known_constraints_wrapper (prob_known_constraints self) Xd))\<rparr>)"
  using assms pymoo_to_olympus_dicts[OF assms(1), of py]
  by (simp add: evaluate_def Let_def tile_view3 comp_def)

text \<open>
  C6. When the candidates decode and the batch size is not negative, the evaluation
  returns, and the objective it stores is the negated acquisition value of the tensor
  in which every expanded candidate, rounded to single precision, stands
  \<open>batch_size\<close> times along the batch dimension.
\<close>

theorem C6_objective_is_negated_replicated_acqf:
  assumes "pymoo_to_olympus py (param_space (prob_params_obj self)) X = Inr param_vecs"
    and "0 \<le> prob_batch_size self"
  shows "\<exists>out'. evaluate py self X out = Inr out' \<and>
           out_F out' =
             Some (map uminus (prob_acqf self
               (map (\<lambda>x. replicate (nat (prob_batch_size self)) (map (float32 py) x))
                  (param_vectors_to_expanded (prob_params_obj self) param_vecs False True))))"
proof -
  from assms(1) obtain Xd where "to_list_dicts (param_space (prob_params_obj self)) X = Inr Xd"
    by (auto simp: pymoo_to_olympus_def split: sum.splits)
  from evaluate_eq[OF this assms, of out] show ?thesis by simp
qed

theorem C6_witness:
  "evaluate
     \<lparr>float_of_str = (\<lambda>s. None), str_of_num = (\<lambda>v. []), float32 = (\<lambda>r. r)\<rparr>
     (PymooProblemWrapper_init
        \<lparr>param_space = [ParameterContinuous ''x'' 0 1],
         param_vectors_to_expanded = (\<lambda>vs a b. map (\<lambda>v. [real (length v)]) vs)\<rparr>
        [(''x'', Real 0 1)] ([0], [1])
        (\<lambda>X. map (\<lambda>b. sum_list (map sum_list b)) X) 2
        \<lparr>is_empty = True, constraints = []\<rparr>)
     (PopDicts [[(''x'', PyFloat 1)]])
     \<lparr>out_F = None, out_G = None\<rparr>
   = Inr \<lparr>out_F = Some [- 2], out_G = None\<rparr>"
proof -
  let ?py = "\<lparr>float_of_str = (\<lambda>s. None), str_of_num = (\<lambda>v. []), float32 = (\<lambda>r. r)\<rparr>"
  let ?self = "PymooProblemWrapper_init
        \<lparr>param_space = [ParameterContinuous ''x'' 0 1],
         param_vectors_to_expanded = (\<lambda>vs a b. map (\<lambda>v. [real (length v)]) vs)\<rparr>
        [(''x'', Real 0 1)] ([0], [1])
        (\<lambda>X. map (\<lambda>b. sum_list (map sum_list b)) X) 2
        \<lparr>is_empty = True, constraints = []\<rparr>"
  have dec: "pymoo_to_olympus ?py (param_space (prob_params_obj ?self))
               (PopDicts [[(''x'', PyFloat 1)]]) = Inr [[(''x'', PyFloat 1)]]"
    by (simp add: PymooProblemWrapper_init_def pymoo_to_olympus_def to_list_dicts_def
        decode_sample_def dict_get_def)
  have bs: "0 \<le> prob_batch_size ?self"
    by (simp add: PymooProblemWrapper_init_def)
  from C6_objective_is_negated_replicated_acqf[OF dec bs, of "\<lparr>out_F = None, out_G = None\<rparr>"]
  obtain out' where
    ev: "evaluate ?py ?self (PopDicts [[(''x'', PyFloat 1)]]) \<lparr>out_F = None, out_G = None\<rparr> = Inr out'"
    and f: "out_F out' = Some [- 2]"
    by (auto simp: PymooProblemWrapper_init_def numeral_2_eq_2)
  have "evaluate ?py ?self (PopDicts [[(''x'', PyFloat 1)]]) \<lparr>out_F = None, out_G = None\<rparr>
          = Inr \<lparr>out_F = Some [- 2], out_G = None\<rparr>"
    by (simp add: evaluate_def PymooProblemWrapper_init_def pymoo_to_olympus_def to_list_dicts_def
        decode_sample_def dict_get_def tile_def view3_def numeral_2_eq_2)
  with ev f show ?thesis by simp
qed

text \<open>
  C9. A problem built from an empty set of known constraints declares no constraint,
  and its evaluation leaves the constraint output as it was; a problem built from a
  non-empty set declares one constraint, and its evaluation stores the margins of the
  known-constraints wrapper.
\<close>

theorem C9_constraint_output:
  assumes "to_list_dicts (param_space pobj) X = Inr Xd"
    and "pymoo_to_olympus py (param_space pobj) X = Inr param_vecs"
    and "0 \<le> bs"
  shows "\<exists>out'. evaluate py (PymooProblemWrapper_init pobj space bounds af bs kc) X out = Inr out' \<and>
           (is_empty kc \<longrightarrow>
              n_constr (PymooProblemWrapper_init pobj space bounds af bs kc) = 0 \<and>
              out_G out' = out_G out) \<and>
           (\<not> is_empty kc \<longrightarrow>
              n_constr (PymooProblemWrapper_init pobj space bounds af bs kc) = 1 \<and>
              out_G out' = Some (known_constraints_wrapper kc Xd))"
proof -
  let ?self = "PymooProblemWrapper_init pobj space bounds af bs kc"
  have sel: "prob_params_obj ?self = pobj" "prob_batch_size ?self = bs"
    "prob_known_constraints ?self = kc" "n_constr ?self = (if is_empty kc then 0 else 1)"
    by (simp_all add: PymooProblemWrapper_init_def Let_def)
  from assms have a: "to_list_dicts (param_space (prob_params_obj ?self)) X = Inr Xd"
    "pymoo_to_olympus py (param_space (prob_params_obj ?self)) X = Inr param_vecs"
    "0 \<le> prob_batch_size ?self"
    by (simp_all only: sel)
  from evaluate_eq[OF a, of out] show ?thesis
    by (simp add: sel)
qed

theorem C9_witness:
  "n_constr (PymooProblemWrapper_init
        \<lparr>param_space = [ParameterCategorical ''c'' [''a'', ''b'']],
         param_vectors_to_expanded = (\<lambda>vs a b. map (\<lambda>v. [1]) vs)\<rparr>
        [(''c'', Choice [''a'', ''b''])] ([0], [1])
        (\<lambda>X. map (\<lambda>b. sum_list (map sum_list b)) X) 1
        \<lparr>is_empty = True, constraints = []\<rparr>) = 0 \<and>
   evaluate \<lparr>float_of_str = (\<lambda>s. None), str_of_num = (\<lambda>v. []), float32 = (\<lambda>r. r)\<rparr>
     (PymooProblemWrapper_init
        \<lparr>param_space = [ParameterCategorical ''c'' [''a'', ''b'']],
         param_vectors_to_expanded = (\<lambda>vs a b. map (\<lambda>v. [1]) vs)\<rparr>
        [(''c'', Choice [''a'', ''b''])] ([0], [1])
        (\<lambda>X. map (\<lambda>b. sum_list (map sum_list b)) X) 1
        \<lparr>is_empty = True, constraints = []\<rparr>)
     (PopDicts [[(''c'', PyStr ''a'')], [(''c'', PyStr ''b'')]]) \<lparr>out_F = None, out_G = None\<rparr>
   = Inr \<lparr>out_F = Some [- 1, - 1], out_G = None\<rparr> \<and>
   n_constr (PymooProblemWrapper_init
        \<lparr>param_space = [ParameterCategorical ''c'' [''a'', ''b'']],
         param_vectors_to_expanded = (\<lambda>vs a b. map (\<lambda>v. [1]) vs)\<rparr>
        [(''c'', Choice [''a'', ''b''])] ([0], [1])
        (\<lambda>X. map (\<lambda>b. sum_list (map sum_list b)) X) 1
        \<lparr>is_empty = False, constraints = [\<lambda>x. x ! 0 \<noteq> PyStr ''a'']\<rparr>) = 1 \<and>
   evaluate \<lparr>float_of_str = (\<lambda>s. None), str_of_num = (\<lambda>v. []), float32 = (\<lambda>r. r)\<rparr>
     (PymooProblemWrapper_init
        \<lparr>param_space = [ParameterCategorical ''c'' [''a'', ''b'']],
         param_vectors_to_expanded = (\<lambda>vs a b. map (\<lambda>v. [1]) vs)\<rparr>
        [(''c'', Choice [''a'', ''b''])] ([0], [1])
        (\<lambda>X. map (\<lambda>b. sum_list (map sum_list b)) X) 1
        \<lparr>is_empty = False, constraints = [\<lambda>x. x ! 0 \<noteq> PyStr ''a'']\<rparr>)
     (PopDicts [[(''c'', PyStr ''a'')], [(''c'', PyStr ''b'')]]) \<lparr>out_F = None, out_G = None\<rparr>
   = Inr \<lparr>out_F = Some [- 1, - 1], out_G = Some [2, - 2]\<rparr>"
proof -
  let ?py = "\<lparr>float_of_str = (\<lambda>s. None), str_of_num = (\<lambda>v. []), float32 = (\<lambda>r. r)\<rparr>"
  let ?pobj = "\<lparr>param_space = [ParameterCategorical ''c'' [''a'', ''b'']],
         param_vectors_to_expanded = (\<lambda>vs a b. map (\<lambda>v. [1]) vs)\<rparr>"
  let ?X = "(PopDicts [[(''c'', PyStr ''a'')], [(''c'', PyStr ''b'')]])"
  have Xd: "to_list_dicts (param_space ?pobj) ?X =
              Inr [[(''c'', PyStr ''a'')], [(''c'', PyStr ''b'')]]"
    by (simp add: to_list_dicts_def)
  have dec: "pymoo_to_olympus ?py (param_space ?pobj) ?X =
               Inr [[(''c'', PyStr ''a'')], [(''c'', PyStr ''b'')]]"
    by (simp add: pymoo_to_olympus_def to_list_dicts_def decode_sample_def dict_get_def)
  have bs: "(0::int) \<le> 1" by simp
  have e0: "evaluate ?py (PymooProblemWrapper_init
        \<lparr>param_space = [ParameterCategorical ''c'' [''a'', ''b'']],
         param_vectors_to_expanded = (\<lambda>vs a b. map (\<lambda>v. [1]) vs)\<rparr>
        [(''c'', Choice [''a'', ''b''])] ([0], [1])
        (\<lambda>X. map (\<lambda>b. sum_list (map sum_list b)) X) 1
        \<lparr>is_empty = True, constraints = []\<rparr>) ?X \<lparr>out_F = None, out_G = None\<rparr>
              = Inr \<lparr>out_F = Some [- 1, - 1], out_G = None\<rparr>"
    by (simp add: evaluate_def PymooProblemWrapper_init_def pymoo_to_olympus_def to_list_dicts_def
        decode_sample_def dict_get_def tile_def view3_def known_constraints_wrapper_def dict_values_def)
  have e1: "evaluate ?py (PymooProblemWrapper_init
        \<lparr>param_space = [ParameterCategorical ''c'' [''a'', ''b'']],
         param_vectors_to_expanded = (\<lambda>vs a b. map (\<lambda>v. [1]) vs)\<rparr>
        [(''c'', Choice [''a'', ''b''])] ([0], [1])
        (\<lambda>X. map (\<lambda>b. sum_list (map sum_list b)) X) 1
        \<lparr>is_empty = False, constraints = [\<lambda>x. x ! 0 \<noteq> PyStr ''a'']\<rparr>) ?X \<lparr>out_F = None, out_G = None\<rparr>
              = Inr \<lparr>out_F = Some [- 1, - 1], out_G = Some [2, - 2]\<rparr>"
    by (simp add: evaluate_def PymooProblemWrapper_init_def pymoo_to_olympus_def to_list_dicts_def
        decode_sample_def dict_get_def tile_def view3_def known_constraints_wrapper_def dict_values_def)
  from C9_constraint_output[OF Xd dec bs, of "[(''c'', Choice [''a'', ''b''])]" "([0], [1])"
      "\<lambda>X. map (\<lambda>b. sum_list (map sum_list b)) X" "\<lparr>is_empty = True, constraints = []\<rparr>" "\<lparr>out_F = None, out_G = None\<rparr>"]
    C9_constraint_output[OF Xd dec bs, of "[(''c'', Choice [''a'', ''b''])]" "([0], [1])"
      "\<lambda>X. map (\<lambda>b. sum_list (map sum_list b)) X" "\<lparr>is_empty = False, constraints = [\<lambda>x. x ! 0 \<noteq> PyStr ''a'']\<rparr>" "\<lparr>out_F = None, out_G = None\<rparr>"]
    e0 e1
  show ?thesis by simp
qed

section \<open>Encoding and decoding\<close>

lemma dict_set_fresh: "k \<notin> fst ` set d \<Longrightarrow> dict_set d k v = d @ [(k, v)]"
  by (induction d) auto

lemma list_index_member:
  "r \<in> set opts \<Longrightarrow>
   \<exists>i. list_index opts (PyFloat r) = Inr i \<and> 0 \<le> i \<and> i < int (length opts) \<and> opts ! nat i = r"
proof (induction opts)
  case Nil
  then show ?case by simp
next
  case (Cons y ys)
  show ?case
  proof (cases "y = r")
    case True
    then show ?thesis by simp
  next
    case False
    with Cons.prems have "r \<in> set ys" by simp
    from Cons.IH[OF this] obtain i where
      i: "list_index ys (PyFloat r) = Inr i" "0 \<le> i" "i < int (length ys)" "ys ! nat i = r"
      by blast
    from i(2) have "nat (i + 1) = Suc (nat i)" by simp
    with False i show ?thesis by simp
  qed
qed

lemma encode_elem_valid:
  assumes "in_domain p x" and "name p \<notin> fst ` set acc"
  shows "\<exists>e. encode_elem py acc (x, p) = Inr (acc @ [(name p, e)]) \<and> encoded_as p x e"
proof (cases p)
  case (ParameterContinuous n lo hi)
  with assms show ?thesis by (auto simp: dict_set_fresh split: pyval.splits)
next
  case (ParameterDiscrete n lo hi opts)
  with assms(1) obtain r where r: "x = PyFloat r" "r \<in> set opts"
    by (auto split: pyval.splits)
  from list_index_member[OF r(2)] obtain i where
    "list_index opts (PyFloat r) = Inr i" "0 \<le> i" "i < int (length opts)" "opts ! nat i = r"
    by blast
  with ParameterDiscrete r assms(2) show ?thesis by (simp add: dict_set_fresh)
next
  case (ParameterCategorical n opts)
  with assms show ?thesis by (auto simp: dict_set_fresh split: pyval.splits)
next
  case (ParameterOther n)
  with assms show ?thesis by simp
qed

lemma encode_loop_valid:
  assumes "list_all2 in_domain ps v" and "distinct (map name ps)"
    and "set (map name ps) \<inter> fst ` set acc = {}"
  shows "\<exists>es. encode_loop py acc (zip v ps) = Inr (acc @ zip (map name ps) es) \<and>
           list_all2 (\<lambda>(p, x) e. encoded_as p x e) (zip ps v) es"
  using assms
proof (induction ps v arbitrary: acc rule: list_all2_induct)
  case Nil
  then show ?case by simp
next
  case (Cons p ps x v)
  from Cons.prems have fresh: "name p \<notin> fst ` set acc" by auto
  from encode_elem_valid[OF Cons.hyps(1) fresh, of py] obtain e where
    e: "encode_elem py acc (x, p) = Inr (acc @ [(name p, e)])" "encoded_as p x e"
    by blast
  from Cons.prems have d: "distinct (map name ps)"
    and disj: "set (map name ps) \<inter> fst ` set (acc @ [(name p, e)]) = {}"
    by auto
  from Cons.IH[OF d disj] obtain es where
    es: "encode_loop py (acc @ [(name p, e)]) (zip v ps) =
           Inr ((acc @ [(name p, e)]) @ zip (map name ps) es)"
      "list_all2 (\<lambda>(p, x) e. encoded_as p x e) (zip ps v) es"
    by blast
  have "encode_loop py acc (zip (x # v) (p # ps)) = Inr (acc @ zip (map name (p # ps)) (e # es))"
    using e(1) es(1) by simp
  moreover have "list_all2 (\<lambda>(p, x) e. encoded_as p x e) (zip (p # ps) (x # v)) (e # es)"
    using e(2) es(2) by simp
  ultimately show ?case by blast
qed

lemma decode_elem_encoded:
  assumes "encoded_as p x e" and "dict_get sample (name p) = Inr e"
    and "name p \<notin> fst ` set acc"
  shows "decode_elem py sample acc (name p, p) = Inr (acc @ [(name p, x)])"
proof (cases p)
  case (ParameterDiscrete n lo hi opts)
  with assms show ?thesis
    by (auto simp: dict_set_fresh list_getitem_def Let_def split: pyval.splits)
qed (use assms in \<open>auto simp: dict_set_fresh split: pyval.splits\<close>)

lemma decode_loop_encoded:
  assumes "list_all2 (\<lambda>(p, x) e. encoded_as p x e \<and> dict_get sample (name p) = Inr e) pxs es"
    and "distinct (map (\<lambda>q. name (fst q)) pxs)"
    and "set (map (\<lambda>q. name (fst q)) pxs) \<inter> fst ` set acc = {}"
  shows "decode_loop py sample acc (zip (map (\<lambda>q. name (fst q)) pxs) (map fst pxs)) =
           Inr (acc @ zip (map (\<lambda>q. name (fst q)) pxs) (map snd pxs))"
  using assms
proof (induction pxs es arbitrary: acc rule: list_all2_induct)
  case Nil
  then show ?case by simp
next
  case (Cons px pxs e es)
  obtain p x where px: "px = (p, x)" by (cases px)
  from Cons.hyps(1) px have enc: "encoded_as p x e" and get: "dict_get sample (name p) = Inr e"
    by simp_all
  from Cons.prems px have fresh: "name p \<notin> fst ` set acc" by auto
  from Cons.prems px have d: "distinct (map (\<lambda>q. name (fst q)) pxs)"
    and disj: "set (map (\<lambda>q. name (fst q)) pxs) \<inter> fst ` set (acc @ [(name p, x)]) = {}"
    by auto
  from decode_elem_encoded[OF enc get fresh, of py] Cons.IH[OF d disj] px
  show ?case by simp
qed

lemma dict_get_zip:
  assumes "length ks = length es" and "distinct ks" and "i < length es"
  shows "dict_get (zip ks es) (ks ! i) = Inr (es ! i)"
  using assms by (simp add: dict_get_def map_of_zip_nth)

text \<open>
  C7. A valid parameter vector is encoded without error, value by value in the
  backend's form and under the parameter names in order; decoding the encoding gives
  back the vector, each value under the name of its parameter, and every decoded
  value lies in the domain its parameter declares.
\<close>

theorem C7_round_trip:
  assumes "valid_vector ps v"
  shows "\<exists>enc. encode_sample py ps v = Inr enc \<and>
           map fst enc = map name ps \<and>
           list_all2 (\<lambda>(p, x) e. encoded_as p x e) (zip ps v) (dict_values enc) \<and>
           pymoo_to_olympus py ps (PopDicts [enc]) = Inr [zip (map name ps) v] \<and>
           list_all2 in_domain ps (dict_values (zip (map name ps) v))"
proof -
  from assms have dom: "list_all2 in_domain ps v" and dist: "distinct (map name ps)"
    by (simp_all add: valid_vector_def)
  from dom have len: "length ps = length v" by (rule list_all2_lengthD)
  from encode_loop_valid[OF dom dist, of "[]" py] obtain es where
    enc: "encode_loop py [] (zip v ps) = Inr (zip (map name ps) es)"
    and rel: "list_all2 (\<lambda>(p, x) e. encoded_as p x e) (zip ps v) es"
    by auto
  let ?enc = "zip (map name ps) es"
  from rel len have les: "length es = length ps" by (auto dest: list_all2_lengthD)
  have keys: "map fst ?enc = map name ps" and vals: "dict_values ?enc = es"
    using les by (simp_all add: dict_values_def)
  have names: "map (\<lambda>q. name (fst q)) (zip ps v) = map name ps"
    using len by (induction ps v rule: list_induct2) simp_all
  have rel': "list_all2 (\<lambda>(p, x) e. encoded_as p x e \<and> dict_get ?enc (name p) = Inr e) (zip ps v) es"
  proof (rule list_all2_all_nthI)
    show "length (zip ps v) = length es" using les len by simp
  next
    fix i assume i: "i < length (zip ps v)"
    with len les have ip: "i < length ps" "i < length es" by simp_all
    from rel i have "(\<lambda>(p, x) e. encoded_as p x e) (zip ps v ! i) (es ! i)"
      by (rule list_all2_nthD)
    moreover from dict_get_zip[of "map name ps" es i] les dist ip
    have "dict_get ?enc (name (ps ! i)) = Inr (es ! i)" by simp
    ultimately show "(\<lambda>(p, x) e. encoded_as p x e \<and> dict_get ?enc (name p) = Inr e)
                        (zip ps v ! i) (es ! i)"
      using ip len by simp
  qed
  from decode_loop_encoded[OF rel', of "[]" py] dist names len
  have "decode_loop py ?enc [] (zip (map name ps) ps) = Inr (zip (map name ps) v)"
    by simp
  then have dec: "decode_sample py ps ?enc = Inr (zip (map name ps) v)"
    by (simp add: decode_sample_def keys)
  have "pymoo_to_olympus py ps (PopDicts [?enc]) = Inr [zip (map name ps) v]"
    using dec by (simp add: pymoo_to_olympus_def to_list_dicts_def)
  moreover have "dict_values (zip (map name ps) v) = v"
    using len by (simp add: dict_values_def)
  ultimately show ?thesis
    using enc rel keys vals dom by (auto simp: encode_sample_def)
qed

theorem C7_witness:
  "encode_sample
     \<lparr>float_of_str = (\<lambda>s. None), str_of_num = (\<lambda>v. []), float32 = (\<lambda>r. r)\<rparr>
     [ParameterContinuous ''x'' 0 1, ParameterDiscrete ''d'' 1 3 [1, 2, 3],
      ParameterCategorical ''c'' [''a'', ''b'']]
     [PyFloat 1, PyFloat 2, PyStr ''b'']
   = Inr [(''x'', PyFloat 1), (''d'', PyInt 1), (''c'', PyStr ''b'')] \<and>
   pymoo_to_olympus
     \<lparr>float_of_str = (\<lambda>s. None), str_of_num = (\<lambda>v. []), float32 = (\<lambda>r. r)\<rparr>
     [ParameterContinuous ''x'' 0 1, ParameterDiscrete ''d'' 1 3 [1, 2, 3],
      ParameterCategorical ''c'' [''a'', ''b'']]
     (PopDicts [[(''x'', PyFloat 1), (''d'', PyInt 1), (''c'', PyStr ''b'')]])
   = Inr [[(''x'', PyFloat 1), (''d'', PyFloat 2), (''c'', PyStr ''b'')]]"
proof -
  let ?py = "\<lparr>float_of_str = (\<lambda>s. None), str_of_num = (\<lambda>v. []), float32 = (\<lambda>r. r)\<rparr>"
  let ?ps = "[ParameterContinuous ''x'' 0 1, ParameterDiscrete ''d'' 1 3 [1, 2, 3],
      ParameterCategorical ''c'' [''a'', ''b'']]"
  have valid: "valid_vector ?ps [PyFloat 1, PyFloat 2, PyStr ''b'']"
    by (simp add: valid_vector_def)
  have enc: "encode_sample ?py ?ps [PyFloat 1, PyFloat 2, PyStr ''b'']
               = Inr [(''x'', PyFloat 1), (''d'', PyInt 1), (''c'', PyStr ''b'')]"
    by (simp add: encode_sample_def)
  from C7_round_trip[OF valid, of ?py] enc show ?thesis
    by simp
qed

section \<open>The variables of the pymoo space\<close>

lemma set_param_loop_eq:
  assumes "\<forall>n. ParameterOther n \<notin> set ps" and "distinct (map name ps)"
    and "set (map name ps) \<inter> fst ` set space = {}"
  shows "\<exists>vs ls us. set_param_loop (space, lower, upper) ps =
             Inr (space @ zip (map name ps) vs, lower @ ls, upper @ us) \<and>
           length vs = length ps \<and> length ls = length ps \<and> length us = length ps \<and>
           (\<forall>i<length ps.
              case ps ! i of
                ParameterContinuous n lo hi \<Rightarrow> vs ! i = Real lo hi \<and> ls ! i = lo \<and> us ! i = hi
              | ParameterDiscrete n lo hi opts \<Rightarrow>
                  vs ! i = Integer 0 (int (length opts) - 1) \<and> ls ! i = lo \<and> us ! i = hi
              | ParameterCategorical n opts \<Rightarrow>
                  vs ! i = Choice opts \<and> ls ! i = 0 \<and> us ! i = of_int (int (length opts) - 1)
              | ParameterOther n \<Rightarrow> False)"
  using assms
proof (induction ps arbitrary: space lower upper)
  case Nil
  then show ?case by simp
next
  case (Cons p ps)
  from Cons.prems have fresh: "name p \<notin> fst ` set space" by auto
  from Cons.prems(1) have noother: "\<forall>n. ParameterOther n \<notin> set ps"
    and pno: "\<forall>n. p \<noteq> ParameterOther n" by auto
  from Cons.prems have d: "distinct (map name ps)" by simp
  let ?R = "\<lambda>p v l u. case p of
                ParameterContinuous n lo hi \<Rightarrow> v = Real lo hi \<and> l = lo \<and> u = hi
              | ParameterDiscrete n lo hi opts \<Rightarrow>
                  v = Integer 0 (int (length opts) - 1) \<and> l = lo \<and> u = hi
              | ParameterCategorical n opts \<Rightarrow>
                  v = Choice opts \<and> l = 0 \<and> u = of_int (int (length opts) - 1)
              | ParameterOther n \<Rightarrow> False"
  have "\<exists>v l u. set_param (space, lower, upper) p =
           Inr (space @ [(name p, v)], lower @ [l], upper @ [u]) \<and> ?R p v l u"
    using fresh pno by (cases p) (simp_all add: dict_set_fresh)
  then obtain v l u where
    step: "set_param (space, lower, upper) p = Inr (space @ [(name p, v)], lower @ [l], upper @ [u])"
    and R: "?R p v l u" by blast
  from Cons.prems have disj: "set (map name ps) \<inter> fst ` set (space @ [(name p, v)]) = {}"
    by auto
  from Cons.IH[OF noother d disj, of "lower @ [l]" "upper @ [u]"] obtain vs ls us where
    rest: "set_param_loop (space @ [(name p, v)], lower @ [l], upper @ [u]) ps =
             Inr ((space @ [(name p, v)]) @ zip (map name ps) vs, (lower @ [l]) @ ls, (upper @ [u]) @ us)"
    and lens: "length vs = length ps" "length ls = length ps" "length us = length ps"
    and all: "\<forall>i<length ps. ?R (ps ! i) (vs ! i) (ls ! i) (us ! i)"
    by blast
  have "set_param_loop (space, lower, upper) (p # ps) =
          Inr (space @ zip (map name (p # ps)) (v # vs), lower @ (l # ls), upper @ (u # us))"
    using step rest by simp
  moreover have "\<forall>i<length (p # ps). ?R ((p # ps) ! i) ((v # vs) ! i) ((l # ls) ! i) ((u # us) ! i)"
  proof (intro allI impI)
    fix i assume "i < length (p # ps)"
    then show "?R ((p # ps) ! i) ((v # vs) ! i) ((l # ls) ! i) ((u # us) ! i)"
      using R all by (cases i) (auto split: parameter.splits)
  qed
  ultimately show ?case
    using lens by (intro exI[of _ "v # vs"] exI[of _ "l # ls"] exI[of _ "u # us"]) simp
qed

text \<open>
  C8. For a space of continuous, discrete and categorical parameters with unique
  names, the pymoo space holds one variable per parameter, under the parameter names
  in order: a Real with the bounds (low, high), an Integer with the bounds
  (0, number of options - 1), a Choice over the options. The bound arrays have one
  entry per parameter, in order: low and high of a continuous or discrete parameter,
  0 and number of options - 1 of a categorical one.
\<close>

theorem C8_param_space_encoding:
  assumes "\<forall>n. ParameterOther n \<notin> set ps" and "distinct (map name ps)"
  shows "\<exists>space lower upper.
           set_pymoo_param_space ps = Inr (space, lower, upper) \<and>
           map fst space = map name ps \<and>
           length lower = length ps \<and> length upper = length ps \<and>
           (\<forall>i<length ps.
              case ps ! i of
                ParameterContinuous n lo hi \<Rightarrow>
                  map_of space n = Some (Real lo hi) \<and> lower ! i = lo \<and> upper ! i = hi
              | ParameterDiscrete n lo hi opts \<Rightarrow>
                  map_of space n = Some (Integer 0 (int (length opts) - 1)) \<and>
                  lower ! i = lo \<and> upper ! i = hi
              | ParameterCategorical n opts \<Rightarrow>
                  map_of space n = Some (Choice opts) \<and>
                  lower ! i = 0 \<and> upper ! i = of_int (int (length opts) - 1)
              | ParameterOther n \<Rightarrow> False)"
proof -
  from set_param_loop_eq[OF assms, of "[]" "[]" "[]"] obtain vs ls us where
    run: "set_param_loop ([], [], []) ps = Inr (zip (map name ps) vs, ls, us)"
    and lens: "length vs = length ps" "length ls = length ps" "length us = length ps"
    and all: "\<forall>i<length ps.
              case ps ! i of
                ParameterContinuous n lo hi \<Rightarrow> vs ! i = Real lo hi \<and> ls ! i = lo \<and> us ! i = hi
              | ParameterDiscrete n lo hi opts \<Rightarrow>
                  vs ! i = Integer 0 (int (length opts) - 1) \<and> ls ! i = lo \<and> us ! i = hi
              | ParameterCategorical n opts \<Rightarrow>
                  vs ! i = Choice opts \<and> ls ! i = 0 \<and> us ! i = of_int (int (length opts) - 1)
              | ParameterOther n \<Rightarrow> False"
    by auto
  let ?space = "zip (map name ps) vs"
  have look: "map_of ?space (name (ps ! i)) = Some (vs ! i)" if "i < length ps" for i
    using map_of_zip_nth[of "map name ps" vs i] lens assms(2) that by simp
  have "\<forall>i<length ps.
              case ps ! i of
                ParameterContinuous n lo hi \<Rightarrow>
                  map_of ?space n = Some (Real lo hi) \<and> ls ! i = lo \<and> us ! i = hi
              | ParameterDiscrete n lo hi opts \<Rightarrow>
                  map_of ?space n = Some (Integer 0 (int (length opts) - 1)) \<and>
                  ls ! i = lo \<and> us ! i = hi
              | ParameterCategorical n opts \<Rightarrow>
                  map_of ?space n = Some (Choice opts) \<and>
                  ls ! i = 0 \<and> us ! i = of_int (int (length opts) - 1)
              | ParameterOther n \<Rightarrow> False"
  proof (intro allI impI)
    fix i assume i: "i < length ps"
    from all i look[OF i] show "case ps ! i of
                ParameterContinuous n lo hi \<Rightarrow>
                  map_of ?space n = Some (Real lo hi) \<and> ls ! i = lo \<and> us ! i = hi
              | ParameterDiscrete n lo hi opts \<Rightarrow>
                  map_of ?space n = Some (Integer 0 (int (length opts) - 1)) \<and>
                  ls ! i = lo \<and> us ! i = hi
              | ParameterCategorical n opts \<Rightarrow>
                  map_of ?space n = Some (Choice opts) \<and>
                  ls ! i = 0 \<and> us ! i = of_int (int (length opts) - 1)
              | ParameterOther n \<Rightarrow> False"
      by (cases "ps ! i") auto
  qed
  moreover have "map fst ?space = map name ps" using lens by simp
  ultimately show ?thesis
    using run lens by (simp add: set_pymoo_param_space_def)
qed

theorem C8_witness:
  "set_pymoo_param_space
     [ParameterContinuous ''x'' 0 1, ParameterDiscrete ''d'' 1 3 [1, 2, 3],
      ParameterCategorical ''c'' [''a'', ''b'']]
   = Inr ([(''x'', Real 0 1), (''d'', Integer 0 2), (''c'', Choice [''a'', ''b''])],
          [0, 1, 0], [1, 3, 1])"
proof -
  let ?ps = "[ParameterContinuous ''x'' 0 1, ParameterDiscrete ''d'' 1 3 [1, 2, 3],
      ParameterCategorical ''c'' [''a'', ''b'']]"
  have a: "\<forall>n. ParameterOther n \<notin> set ?ps" by simp
  have b: "distinct (map name ?ps)" by simp
  from C8_param_space_encoding[OF a b] show ?thesis
    by (simp add: set_pymoo_param_space_def)
qed

section \<open>Construction of the planner\<close>

text \<open>
  C10. With general parameters given and another acquisition type requested, the
  constructor logs a warning and sets the acquisition type to general; without
  general parameters (or with the type general already) it leaves the planner as it is.
\<close>

theorem C10_general_parameters_override:
  "(general_parameters self \<noteq> None \<and> acquisition_type self \<noteq> ''general'' \<longrightarrow>
      (\<exists>msg. BoTorchPlanner_init self =
         Inr (self\<lparr>logged := logged self @ [(''WARNING'', msg)], acquisition_type := ''general''\<rparr>))) \<and>
   (general_parameters self = None \<or> acquisition_type self = ''general'' \<longrightarrow>
      BoTorchPlanner_init self = Inr self)"
  by (auto simp: BoTorchPlanner_init_def Logger_log_def Let_def)

theorem C10_witness:
  "BoTorchPlanner_init
     \<lparr>acquisition_type = ''ei'', acquisition_optimizer_kind = ''pymoo'',
      general_parameters = Some [0], batch_size = 1, batched_strategy = ''sequential'',
      params_obj = \<lparr>param_space = [], param_vectors_to_expanded = (\<lambda>vs a b. [])\<rparr>,
      known_constraints = \<lparr>is_empty = True, constraints = []\<rparr>,
      measured_params = [], acqf = None, logged = []\<rparr>
   = Inr \<lparr>acquisition_type = ''general'', acquisition_optimizer_kind = ''pymoo'',
      general_parameters = Some [0], batch_size = 1, batched_strategy = ''sequential'',
      params_obj = \<lparr>param_space = [], param_vectors_to_expanded = (\<lambda>vs a b. [])\<rparr>,
      known_constraints = \<lparr>is_empty = True, constraints = []\<rparr>,
      measured_params = [], acqf = None, logged = [(''WARNING'',
        ''Acquisition type ei requested, but general parameters specified. Overriding to '' @
        [CHR 0x22] @ ''general'' @ [CHR 0x22] @ ''...'')]\<rparr> \<and>
   BoTorchPlanner_init
     \<lparr>acquisition_type = ''ei'', acquisition_optimizer_kind = ''pymoo'',
      general_parameters = None, batch_size = 1, batched_strategy = ''sequential'',
      params_obj = \<lparr>param_space = [], param_vectors_to_expanded = (\<lambda>vs a b. [])\<rparr>,
      known_constraints = \<lparr>is_empty = True, constraints = []\<rparr>,
      measured_params = [], acqf = None, logged = []\<rparr>
   = Inr \<lparr>acquisition_type = ''ei'', acquisition_optimizer_kind = ''pymoo'',
      general_parameters = None, batch_size = 1, batched_strategy = ''sequential'',
      params_obj = \<lparr>param_space = [], param_vectors_to_expanded = (\<lambda>vs a b. [])\<rparr>,
      known_constraints = \<lparr>is_empty = True, constraints = []\<rparr>,
      measured_params = [], acqf = None, logged = []\<rparr>"
  using
    C10_general_parameters_override[of
      "\<lparr>acquisition_type = ''ei'', acquisition_optimizer_kind = ''pymoo'',
      general_parameters = Some [0], batch_size = 1, batched_strategy = ''sequential'',
      params_obj = \<lparr>param_space = [], param_vectors_to_expanded = (\<lambda>vs a b. [])\<rparr>,
      known_constraints = \<lparr>is_empty = True, constraints = []\<rparr>,
      measured_params = [], acqf = None, logged = []\<rparr>"]
    C10_general_parameters_override[of
      "\<lparr>acquisition_type = ''ei'', acquisition_optimizer_kind = ''pymoo'',
      general_parameters = None, batch_size = 1, batched_strategy = ''sequential'',
      params_obj = \<lparr>param_space = [], param_vectors_to_expanded = (\<lambda>vs a b. [])\<rparr>,
      known_constraints = \<lparr>is_empty = True, constraints = []\<rparr>,
      measured_params = [], acqf = None, logged = []\<rparr>"]
  by (simp add: BoTorchPlanner_init_def Logger_log_def Let_def)

end
